theory Spec2Isabelle
  imports Complex_Main "HOL-Library.Log_Nat"
begin

section \<open>JavaScript numbers\<close>

text \<open>
  Every number the program computes with is an IEEE 754 binary64 value: a finite double,
  an infinity or NaN. A finite double is kept as the rational it denotes; the two zeros
  are identified (\<^verbatim>\<open>===\<close> and \<^verbatim>\<open>||\<close> do not tell them apart). Addition and multiplication
  compute the exact result and round it to the nearest double, ties to the even
  significand, overflowing to an infinity.
\<close>

datatype number = Finite rat | PosInf | NegInf | NaN

definition pow2 :: "int \<Rightarrow> rat" where
  "pow2 e = (if 0 \<le> e then 2 ^ nat e else 1 / 2 ^ nat (- e))"

text \<open>The binary exponent of a positive rational \<open>x\<close>, that is the \<open>e\<close> with
  \<open>pow2 e \<le> x < pow2 (e + 1)\<close>: from the bit length of the integer part of \<open>x\<close>
  when \<open>1 \<le> x\<close>, and of \<open>1 / x\<close> otherwise.\<close>

definition ilog2 :: "rat \<Rightarrow> int" where
  "ilog2 x =
     (if 1 \<le> x then bitlen \<lfloor>x\<rfloor> - 1
      else (let e = 1 - bitlen \<lfloor>1 / x\<rfloor> in if pow2 e \<le> x then e else e - 1))"

definition round_half_even :: "rat \<Rightarrow> int" where
  "round_half_even y =
     (let n = \<lfloor>y\<rfloor>; r = y - of_int n
      in if r < 1 / 2 then n else if 1 / 2 < r then n + 1 else if even n then n else n + 1)"

text \<open>Rounding to binary64: 53 significant bits, the spacing \<open>pow2 (- 1074)\<close> of the
  subnormals below \<open>pow2 (- 1022)\<close>, an infinity from \<open>pow2 1024\<close> on.\<close>

definition round_double :: "rat \<Rightarrow> number" where
  "round_double x =
     (if x = 0 then Finite 0
      else
        (let q = pow2 (max (ilog2 \<bar>x\<bar>) (- 1022) - 52);
             y = q * of_int (round_half_even (\<bar>x\<bar> / q))
         in if pow2 1024 \<le> y then (if 0 < x then PosInf else NegInf)
            else Finite (if 0 < x then y else - y)))"

fun js_add :: "number \<Rightarrow> number \<Rightarrow> number" where
  "js_add (Finite a) (Finite b) = round_double (a + b)"
| "js_add NaN y = NaN"
| "js_add x NaN = NaN"
| "js_add PosInf NegInf = NaN"
| "js_add NegInf PosInf = NaN"
| "js_add PosInf y = PosInf"
| "js_add x PosInf = PosInf"
| "js_add NegInf y = NegInf"
| "js_add x NegInf = NegInf"

fun js_mul :: "number \<Rightarrow> number \<Rightarrow> number" where
  "js_mul (Finite a) (Finite b) = round_double (a * b)"
| "js_mul NaN y = NaN"
| "js_mul x NaN = NaN"
| "js_mul (Finite a) y =
     (if a = 0 then NaN else if (0 < a) = (y = PosInf) then PosInf else NegInf)"
| "js_mul x (Finite b) =
     (if b = 0 then NaN else if (0 < b) = (x = PosInf) then PosInf else NegInf)"
| "js_mul x y = (if x = y then PosInf else NegInf)"

text \<open>A cart quantity is an integer held in a JavaScript number: \<open>num\<close> is that number.
  Every integer up to \<open>2 ^ 53\<close> in magnitude is a double; \<open>js_increment\<close> is the integer
  that \<^verbatim>\<open>quantity + 1\<close> yields (adding 1 to a finite double never overflows).\<close>

definition num :: "int \<Rightarrow> number" where
  "num n = round_double (of_int n)"

definition js_increment :: "int \<Rightarrow> int" where
  "js_increment q = (case js_add (num q) (Finite 1) of Finite r \<Rightarrow> \<lfloor>r\<rfloor> | _ \<Rightarrow> q)"

section \<open>Data model of the cart context\<close>

text \<open>
  The cart context (\<^verbatim>\<open>CartProvider\<close>) keeps an ordered list of cart lines, a cache
  of experience records and a derived total price. Timestamps are the ISO strings that
  \<^verbatim>\<open>Date.toISOString\<close> produces.
\<close>

record CartItem =
  experienceId :: string
  quantity :: int
  date :: "string option"

record Experience =
  exp_id :: string
  title :: string
  price :: number

datatype toast = ToastError string | ToastSuccess string

text \<open>Guest carts live under the key \<^verbatim>\<open>cart\<close> of the browser's local storage: the
  key is absent, holds text that does not parse to a list (\<^verbatim>\<open>JSON.parse\<close> or the
  following \<^verbatim>\<open>find\<close> throws), or holds a serialised list of cart lines.\<close>

datatype local_cart = Absent | Malformed | Stored "CartItem list"

subsection \<open>The remote data service\<close>

text \<open>
  Every call of the hosted database client either resolves to a pair
  \<^verbatim>\<open>{ data, error }\<close> or rejects. Which of the three happens is decided outside the
  program, so each call site takes a \<open>fault\<close>: \<open>NoFault\<close> (the service carries the
  request out), \<open>Fails c\<close> (it resolves with an error object of code \<open>c\<close> and
  changes nothing) or \<open>Throws\<close> (the promise rejects and nothing changes).
\<close>

datatype fault = NoFault | Fails string | Throws

datatype 'a reply = Resolved "'a option" "string option" | Rejected

text \<open>\<^verbatim>\<open>.single()\<close> resolves with the row when exactly one row matches, and with error
  code \<^verbatim>\<open>PGRST116\<close> when none or several do.\<close>

definition single :: "fault \<Rightarrow> 'a list \<Rightarrow> 'a reply" where
  "single f rows =
     (case f of
        Throws \<Rightarrow> Rejected
      | Fails c \<Rightarrow> Resolved None (Some c)
      | NoFault \<Rightarrow>
          (case rows of
             [r] \<Rightarrow> Resolved (Some r) None
           | _ \<Rightarrow> Resolved None (Some ''PGRST116'')))"

text \<open>A plain \<^verbatim>\<open>.select()\<close> resolves with all matching rows.\<close>

definition select :: "fault \<Rightarrow> 'a list \<Rightarrow> 'a list reply" where
  "select f rows =
     (case f of
        Throws \<Rightarrow> Rejected
      | Fails c \<Rightarrow> Resolved None (Some c)
      | NoFault \<Rightarrow> Resolved (Some rows) None)"

text \<open>Rows of the tables the cart context touches. The columns \<^verbatim>\<open>created_at\<close> and
  \<^verbatim>\<open>updated_at\<close> are written from the wall clock and never read; they are left out.
  Primary keys are generated by the service. The migration makes
  \<^verbatim>\<open>cart_items.date\<close> \<^verbatim>\<open>NOT NULL\<close> without a default, so a stored row always has a
  date.\<close>

record cart_row =
  row_id :: nat
  row_user :: string
  row_experience :: string
  row_quantity :: int
  row_date :: string

record booking_row =
  booking_id :: nat
  booking_user :: string
  total_amount :: number
  status :: string
  payment_method :: string
  booking_notes :: string

record booking_item_row =
  bi_booking_id :: nat
  bi_experience_id :: string
  bi_quantity :: int
  price_at_booking :: number

definition fresh_id :: "nat list \<Rightarrow> nat" where
  "fresh_id ids = Suc (fold max ids 0)"

text \<open>The whole state the cart context reads and writes: the signed-in user, the React
  state (\<open>items\<close>, \<open>experienceCache\<close>, \<open>totalPrice\<close>), the guest cart in local storage,
  the remote tables, and the toasts shown so far. Of the \<^verbatim>\<open>experiences\<close> table the
  cart context reads the \<^verbatim>\<open>id\<close> column only, so \<open>db_experiences\<close> lists the ids
  of its rows. The select of the cart rows has no \<^verbatim>\<open>ORDER BY\<close>: the service
  returns the rows in an order of its own, here the order of the ranks \<open>db_rank\<close>
  that it assigns to rows (an updated row may get any rank).\<close>

record world =
  user :: "string option"
  items :: "CartItem list"
  experienceCache :: "string \<Rightarrow> Experience option"
  totalPrice :: number
  localStorage_cart :: local_cart
  db_experiences :: "string list"
  db_cart_items :: "cart_row list"
  db_rank :: "cart_row \<Rightarrow> nat"
  db_bookings :: "booking_row list"
  db_booking_items :: "booking_item_row list"
  toasts :: "toast list"

datatype js_error = Error string | BackendError string | NetworkError

datatype 'a outcome = Returned 'a | Raised js_error

section \<open>Derived values\<close>

text \<open>\<^verbatim>\<open>items.reduce((total, item) => total + item.quantity, 0)\<close>\<close>

definition itemCount :: "CartItem list \<Rightarrow> number" where
  "itemCount its = foldl (\<lambda>total item. js_add total (num (quantity item))) (Finite 0) its"

text \<open>\<^verbatim>\<open>experience?.price || 0\<close>: an uncached experience, a zero price and a NaN price
  all give 0.\<close>

definition price_or_zero :: "Experience option \<Rightarrow> number" where
  "price_or_zero e =
     (case e of
        None \<Rightarrow> Finite 0
      | Some x \<Rightarrow> (if price x = Finite 0 \<or> price x = NaN then Finite 0 else price x))"

definition cart_total :: "(string \<Rightarrow> Experience option) \<Rightarrow> CartItem list \<Rightarrow> number" where
  "cart_total cache its =
     foldl (\<lambda>sum item.
              js_add sum (js_mul (price_or_zero (cache (experienceId item))) (num (quantity item))))
       (Finite 0) its"

text \<open>The cache is a plain object: reading a key that names a member of
  \<^verbatim>\<open>Object.prototype\<close> finds that member even when no experience is cached under it.
  Such a value is truthy and has no \<^verbatim>\<open>price\<close>.\<close>

definition object_prototype_members :: "string list" where
  "object_prototype_members =
     [''constructor'', ''__proto__'', ''hasOwnProperty'', ''isPrototypeOf'',
      ''propertyIsEnumerable'', ''toLocaleString'', ''toString'', ''valueOf'',
      ''__defineGetter__'', ''__defineSetter__'', ''__lookupGetter__'', ''__lookupSetter__'']"

definition cache_truthy :: "(string \<Rightarrow> Experience option) \<Rightarrow> string \<Rightarrow> bool" where
  "cache_truthy cache key = (key \<in> set object_prototype_members \<or> cache key \<noteq> None)"

text \<open>The loop of \<^verbatim>\<open>fetchExperiencesForCart\<close>: fetch every experience of the cart for
  which the copy of the cache holds nothing truthy, in cart order.\<close>

fun fetch_loop ::
  "(string \<Rightarrow> Experience option) \<Rightarrow> CartItem list \<Rightarrow>
   (string \<Rightarrow> Experience option) \<times> bool \<Rightarrow> (string \<Rightarrow> Experience option) \<times> bool" where
  "fetch_loop getExperienceById [] acc = acc"
| "fetch_loop getExperienceById (item # rest) (newCache, needsUpdate) =
     (if cache_truthy newCache (experienceId item)
      then fetch_loop getExperienceById rest (newCache, needsUpdate)
      else
        (case getExperienceById (experienceId item) of
           Some experience \<Rightarrow>
             fetch_loop getExperienceById rest (newCache(experienceId item \<mapsto> experience), True)
         | None \<Rightarrow> fetch_loop getExperienceById rest (newCache, needsUpdate)))"

definition fetchExperiencesForCart :: "(string \<Rightarrow> Experience option) \<Rightarrow> world \<Rightarrow> world" where
  "fetchExperiencesForCart getExperienceById s =
     (case fetch_loop getExperienceById (items s) (experienceCache s, False) of
        (newCache, needsUpdate) \<Rightarrow>
          (let s1 = (if needsUpdate then s\<lparr>experienceCache := newCache\<rparr> else s)
           in s1\<lparr>totalPrice := cart_total newCache (items s)\<rparr>))"

section \<open>Calls of the remote data service\<close>

text \<open>A write without \<^verbatim>\<open>.select()\<close> (insert, update, delete): the reply carries no data;
  the table changes exactly when the service carries the request out.\<close>

definition mutate :: "fault \<Rightarrow> ('t \<Rightarrow> 't) \<Rightarrow> 't \<Rightarrow> unit reply \<times> 't" where
  "mutate f change table =
     (case f of
        NoFault \<Rightarrow> (Resolved None None, change table)
      | Fails c \<Rightarrow> (Resolved None (Some c), table)
      | Throws \<Rightarrow> (Rejected, table))"

text \<open>\<^verbatim>\<open>.insert(row).select().single()\<close>: the reply carries the inserted row.\<close>

definition insert_returning :: "fault \<Rightarrow> 'r \<Rightarrow> 'r list \<Rightarrow> 'r reply \<times> 'r list" where
  "insert_returning f row table =
     (case f of
        NoFault \<Rightarrow> (Resolved (Some row) None, table @ [row])
      | Fails c \<Rightarrow> (Resolved None (Some c), table)
      | Throws \<Rightarrow> (Rejected, table))"

section \<open>Cart operations\<close>

definition row_to_item :: "cart_row \<Rightarrow> CartItem" where
  "row_to_item r =
     \<lparr>experienceId = row_experience r, quantity = row_quantity r, date = Some (row_date r)\<rparr>"

definition fetchCartItems :: "fault \<Rightarrow> world \<Rightarrow> unit outcome \<times> world" where
  "fetchCartItems f s =
     (case user s of
        None \<Rightarrow> (Returned (), s)
      | Some uid \<Rightarrow>
          (case select f
                  (sort_key (db_rank s) (filter (\<lambda>r. row_user r = uid) (db_cart_items s))) of
             Rejected \<Rightarrow> (Raised NetworkError, s)
           | Resolved data (Some error) \<Rightarrow> (Raised (BackendError error), s)
           | Resolved None None \<Rightarrow> (Raised (Error ''TypeError''), s)
           | Resolved (Some rows) None \<Rightarrow> (Returned (), s\<lparr>items := map row_to_item rows\<rparr>)))"

text \<open>The guest branch of \<^verbatim>\<open>addToCart\<close> looks the line up with \<^verbatim>\<open>Array.find\<close> and
  increments the object it found in place: the first line with that id.\<close>

fun increment_existing :: "string \<Rightarrow> CartItem list \<Rightarrow> CartItem list" where
  "increment_existing eid [] = []"
| "increment_existing eid (item # rest) =
     (if experienceId item = eid then item\<lparr>quantity := js_increment (quantity item)\<rparr> # rest
      else item # increment_existing eid rest)"

definition guest_add :: "string \<Rightarrow> string option \<Rightarrow> CartItem list \<Rightarrow> world \<Rightarrow> unit outcome \<times> world" where
  "guest_add eid dateArg cartItems s =
     (let cartItems' =
            (case find (\<lambda>item. experienceId item = eid) cartItems of
               Some existingItem \<Rightarrow> increment_existing eid cartItems
             | None \<Rightarrow> cartItems @ [\<lparr>experienceId = eid, quantity = 1, date = dateArg\<rparr>])
      in (Returned (), s\<lparr>localStorage_cart := Stored cartItems', items := cartItems'\<rparr>))"

text \<open>\<^verbatim>\<open>date?.toISOString() || existingItem.date\<close>: an absent argument and an empty
  string are falsy.\<close>

definition date_or :: "string option \<Rightarrow> string \<Rightarrow> string" where
  "date_or dateArg existing =
     (case dateArg of None \<Rightarrow> existing | Some d \<Rightarrow> (if d = [] then existing else d))"

definition update_cart_row :: "cart_row \<Rightarrow> string option \<Rightarrow> cart_row list \<Rightarrow> cart_row list" where
  "update_cart_row existingItem dateArg rows =
     map (\<lambda>r. if row_id r = row_id existingItem
              then r\<lparr>row_quantity := js_increment (row_quantity existingItem),
                     row_date := date_or dateArg (row_date existingItem)\<rparr>
              else r) rows"

text \<open>The insert of a new cart row. Without a date argument the payload has no
  \<^verbatim>\<open>date\<close>, and the service refuses the row for its \<^verbatim>\<open>NOT NULL\<close> column
  (error code 23502).\<close>

definition insert_cart_row ::
  "fault \<Rightarrow> string \<Rightarrow> string \<Rightarrow> string option \<Rightarrow> cart_row list \<Rightarrow> unit reply \<times> cart_row list" where
  "insert_cart_row f uid eid dateArg rows =
     (case dateArg of
        None \<Rightarrow>
          (case f of
             NoFault \<Rightarrow> (Resolved None (Some ''23502''), rows)
           | Fails c \<Rightarrow> (Resolved None (Some c), rows)
           | Throws \<Rightarrow> (Rejected, rows))
      | Some d \<Rightarrow>
          mutate f
            (\<lambda>table. table @
               [\<lparr>row_id = fresh_id (map row_id table), row_user = uid, row_experience = eid,
                 row_quantity = 1, row_date = d\<rparr>])
            rows)"

definition remote_add ::
  "string \<Rightarrow> string \<Rightarrow> string option \<Rightarrow> fault \<Rightarrow> fault \<Rightarrow> fault \<Rightarrow> fault \<Rightarrow> world
   \<Rightarrow> unit outcome \<times> world" where
  "remote_add uid eid dateArg f_experience f_existing f_write f_refresh s =
     (case single f_experience (filter (\<lambda>e. e = eid) (db_experiences s)) of
        Rejected \<Rightarrow> (Raised NetworkError, s)
      | Resolved experience experienceError \<Rightarrow>
          if experienceError \<noteq> None \<or> experience = None
          then (Raised (Error ''Experience not found''), s)
          else
            (case single f_existing
                    (filter (\<lambda>r. row_user r = uid \<and> row_experience r = eid) (db_cart_items s)) of
               Rejected \<Rightarrow> (Raised NetworkError, s)
             | Resolved existingItem fetchError \<Rightarrow>
                 if fetchError \<noteq> None \<and> fetchError \<noteq> Some ''PGRST116''
                 then (Raised (Error ''Failed to check cart''), s)
                 else
                   (case existingItem of
                      Some existing \<Rightarrow>
                        (case mutate f_write (update_cart_row existing dateArg) (db_cart_items s) of
                           (Rejected, rows) \<Rightarrow> (Raised NetworkError, s\<lparr>db_cart_items := rows\<rparr>)
                         | (Resolved d (Some updateError), rows) \<Rightarrow>
                             (Raised (Error ''Failed to update cart''), s\<lparr>db_cart_items := rows\<rparr>)
                         | (Resolved d None, rows) \<Rightarrow>
                             fetchCartItems f_refresh (s\<lparr>db_cart_items := rows\<rparr>))
                    | None \<Rightarrow>
                        (case insert_cart_row f_write uid eid dateArg (db_cart_items s) of
                           (Rejected, rows) \<Rightarrow> (Raised NetworkError, s\<lparr>db_cart_items := rows\<rparr>)
                         | (Resolved d (Some insertError), rows) \<Rightarrow>
                             (Raised (Error ''Failed to add to cart''), s\<lparr>db_cart_items := rows\<rparr>)
                         | (Resolved d None, rows) \<Rightarrow>
                             fetchCartItems f_refresh (s\<lparr>db_cart_items := rows\<rparr>)))))"

text \<open>\<^verbatim>\<open>addToCart(experienceId, date?)\<close>. The date argument, when present, is given by
  its ISO string. The four faults are those of the remote calls in program order: the
  existence check of the experience, the lookup of the cart line, the update or insert,
  and the refresh; guests make no remote call.\<close>

definition addToCart ::
  "string \<Rightarrow> string option \<Rightarrow> fault \<Rightarrow> fault \<Rightarrow> fault \<Rightarrow> fault \<Rightarrow> world \<Rightarrow> unit outcome \<times> world" where
  "addToCart eid dateArg f_experience f_existing f_write f_refresh s =
     (case user s of
        None \<Rightarrow>
          (case localStorage_cart s of
             Malformed \<Rightarrow> (Raised (Error ''Failed to add to cart''), s)
           | Absent \<Rightarrow> guest_add eid dateArg [] s
           | Stored cartItems \<Rightarrow> guest_add eid dateArg cartItems s)
      | Some uid \<Rightarrow> remote_add uid eid dateArg f_experience f_existing f_write f_refresh s)"

definition removeFromCart :: "string \<Rightarrow> fault \<Rightarrow> world \<Rightarrow> world" where
  "removeFromCart eid f s =
     (case (case user s of
              None \<Rightarrow> (Resolved None None, db_cart_items s)
            | Some uid \<Rightarrow>
                mutate f (filter (\<lambda>r. \<not> (row_user r = uid \<and> row_experience r = eid)))
                  (db_cart_items s)) of
        (Rejected, rows) \<Rightarrow>
          s\<lparr>db_cart_items := rows,
            toasts := toasts s @ [ToastError ''Failed to remove item from cart'']\<rparr>
      | (Resolved d (Some error), rows) \<Rightarrow>
          s\<lparr>db_cart_items := rows,
            toasts := toasts s @ [ToastError ''Failed to remove item from cart'']\<rparr>
      | (Resolved d None, rows) \<Rightarrow>
          s\<lparr>db_cart_items := rows,
            items := filter (\<lambda>item. experienceId item \<noteq> eid) (items s),
            toasts := toasts s @ [ToastSuccess ''Item removed from cart'']\<rparr>)"

definition updateQuantity :: "string \<Rightarrow> int \<Rightarrow> fault \<Rightarrow> world \<Rightarrow> world" where
  "updateQuantity eid n f s =
     (if n \<le> 0 then removeFromCart eid f s
      else
        (case (case user s of
                 None \<Rightarrow> (Resolved None None, db_cart_items s)
               | Some uid \<Rightarrow>
                   mutate f (map (\<lambda>r. if row_user r = uid \<and> row_experience r = eid
                                      then r\<lparr>row_quantity := n\<rparr> else r))
                     (db_cart_items s)) of
           (Rejected, rows) \<Rightarrow>
             s\<lparr>db_cart_items := rows, toasts := toasts s @ [ToastError ''Failed to update quantity'']\<rparr>
         | (Resolved d (Some error), rows) \<Rightarrow>
             s\<lparr>db_cart_items := rows, toasts := toasts s @ [ToastError ''Failed to update quantity'']\<rparr>
         | (Resolved d None, rows) \<Rightarrow>
             s\<lparr>db_cart_items := rows,
               items := map (\<lambda>item. if experienceId item = eid then item\<lparr>quantity := n\<rparr> else item)
                          (items s)\<rparr>))"

definition clearCart :: "fault \<Rightarrow> world \<Rightarrow> world" where
  "clearCart f s =
     (case (case user s of
              None \<Rightarrow> (Resolved None None, db_cart_items s)
            | Some uid \<Rightarrow> mutate f (filter (\<lambda>r. row_user r \<noteq> uid)) (db_cart_items s)) of
        (Rejected, rows) \<Rightarrow>
          s\<lparr>db_cart_items := rows, toasts := toasts s @ [ToastError ''Failed to clear cart'']\<rparr>
      | (Resolved d (Some error), rows) \<Rightarrow>
          s\<lparr>db_cart_items := rows, toasts := toasts s @ [ToastError ''Failed to clear cart'']\<rparr>
      | (Resolved d None, rows) \<Rightarrow>
          s\<lparr>db_cart_items := rows, items := [], toasts := toasts s @ [ToastSuccess ''Cart cleared'']\<rparr>)"

text \<open>The cart as \<^verbatim>\<open>addToCart\<close> reads it: for a guest the list stored in local
  storage (none when the key is absent), for a signed-in user the lines of that user's
  rows of the remote table, as \<^verbatim>\<open>fetchCartItems\<close> maps them.\<close>

definition stored_cart :: "world \<Rightarrow> CartItem list" where
  "stored_cart s =
     (case user s of
        None \<Rightarrow> (case localStorage_cart s of Stored cartItems \<Rightarrow> cartItems | _ \<Rightarrow> [])
      | Some uid \<Rightarrow>
          map row_to_item
            (sort_key (db_rank s) (filter (\<lambda>r. row_user r = uid) (db_cart_items s))))"

section \<open>Checkout\<close>

definition bookingItems ::
  "(string \<Rightarrow> Experience option) \<Rightarrow> nat \<Rightarrow> CartItem list \<Rightarrow> booking_item_row list" where
  "bookingItems cache bid its =
     map (\<lambda>item. \<lparr>bi_booking_id = bid, bi_experience_id = experienceId item,
                  bi_quantity = quantity item,
                  price_at_booking = price_or_zero (cache (experienceId item))\<rparr>) its"

text \<open>\<^verbatim>\<open>checkout()\<close>. The faults are those of the booking insert, the booking-items
  insert and the delete inside \<^verbatim>\<open>clearCart\<close>.\<close>

definition checkout :: "fault \<Rightarrow> fault \<Rightarrow> fault \<Rightarrow> world \<Rightarrow> bool \<times> world" where
  "checkout f_booking f_items f_clear s =
     (case user s of
        None \<Rightarrow> (False, s\<lparr>toasts := toasts s @ [ToastError ''Please log in to checkout'']\<rparr>)
      | Some uid \<Rightarrow>
          if length (items s) = 0
          then (False, s\<lparr>toasts := toasts s @ [ToastError ''Your cart is empty'']\<rparr>)
          else
            (let total = cart_total (experienceCache s) (items s) in
             case insert_returning f_booking
                    \<lparr>booking_id = fresh_id (map booking_id (db_bookings s)), booking_user = uid,
                     total_amount = total, status = ''confirmed'',
                     payment_method = ''credit_card'',
                     booking_notes = ''Processed via web checkout''\<rparr>
                    (db_bookings s) of
               (Rejected, bookings) \<Rightarrow> (False, s\<lparr>db_bookings := bookings\<rparr>)
             | (Resolved bookingData bookingError, bookings) \<Rightarrow>
                 (case (bookingError, bookingData) of
                    (None, Some booking) \<Rightarrow>
                      (case mutate f_items
                              (\<lambda>table. table @
                                 bookingItems (experienceCache s) (booking_id booking) (items s))
                              (db_booking_items s) of
                         (Rejected, rows) \<Rightarrow>
                           (False, s\<lparr>db_bookings := bookings, db_booking_items := rows\<rparr>)
                       | (Resolved d (Some itemsError), rows) \<Rightarrow>
                           (False, s\<lparr>db_bookings := bookings, db_booking_items := rows\<rparr>)
                       | (Resolved d None, rows) \<Rightarrow>
                           (True, clearCart f_clear
                                    (s\<lparr>db_bookings := bookings, db_booking_items := rows\<rparr>)))
                  | _ \<Rightarrow> (False, s\<lparr>db_bookings := bookings\<rparr>))))"

section \<open>Provider application intake\<close>

record experience_details =
  ed_name :: string
  ed_description :: string
  ed_image :: string
  ed_price :: string
  ed_location :: string
  ed_duration :: string
  ed_participants :: string
  ed_date :: string
  ed_category :: string

record provider_form =
  companyName :: string
  email :: string
  contactNo :: string
  location :: string
  experienceDetails :: "experience_details option"

record provider_row =
  provider_id :: nat
  company_name :: string
  provider_email :: string
  contact_no :: string
  provider_location :: string
  provider_status :: string
  join_date :: string
  experiences_count :: int
  rating :: int

record experience_row =
  er_provider_id :: nat
  er_title :: string
  er_description :: string
  er_image_url :: string
  er_price :: number
  er_location :: string
  er_duration :: string
  er_participants :: string
  er_date :: string
  er_category :: string
  er_status :: string

record provider_world =
  db_providers :: "provider_row list"
  db_provider_experiences :: "experience_row list"
  provider_toasts :: "toast list"

datatype submit_result = Success "provider_row option" | Failure js_error

definition experience_of_details ::
  "(string \<Rightarrow> number) \<Rightarrow> nat \<Rightarrow> experience_details \<Rightarrow> experience_row" where
  "experience_of_details parseFloat pid d =
     \<lparr>er_provider_id = pid, er_title = ed_name d, er_description = ed_description d,
      er_image_url = ed_image d, er_price = parseFloat (ed_price d),
      er_location = ed_location d, er_duration = ed_duration d,
      er_participants = ed_participants d, er_date = ed_date d,
      er_category = ed_category d, er_status = ''pending''\<rparr>"

definition provider_of_form :: "string \<Rightarrow> nat \<Rightarrow> provider_form \<Rightarrow> provider_row" where
  "provider_of_form now pid formData =
     \<lparr>provider_id = pid, company_name = companyName formData,
      provider_email = email formData, contact_no = contactNo formData,
      provider_location = location formData, provider_status = ''pending'',
      join_date = now, experiences_count = 0, rating = 0\<rparr>"

definition submit_failed :: "js_error \<Rightarrow> provider_world \<Rightarrow> submit_result \<times> provider_world" where
  "submit_failed err s =
     (Failure err,
      s\<lparr>provider_toasts :=
          provider_toasts s @ [ToastError ''Failed to submit application. Please try again.'']\<rparr>)"

text \<open>\<^verbatim>\<open>submitProviderApplication(formData)\<close>. \<open>parseFloat\<close> is JavaScript's and
  \<open>now\<close> the wall clock's ISO string; the faults are those of the provider insert and
  of the experience insert.\<close>

definition submitProviderApplication ::
  "(string \<Rightarrow> number) \<Rightarrow> string \<Rightarrow> provider_form \<Rightarrow> fault \<Rightarrow> fault \<Rightarrow> provider_world
   \<Rightarrow> submit_result \<times> provider_world" where
  "submitProviderApplication parseFloat now formData f_provider f_experience s =
     (case insert_returning f_provider
             (provider_of_form now (fresh_id (map provider_id (db_providers s))) formData)
             (db_providers s) of
        (Rejected, providers) \<Rightarrow> submit_failed NetworkError (s\<lparr>db_providers := providers\<rparr>)
      | (Resolved providerData (Some providerError), providers) \<Rightarrow>
          submit_failed (BackendError providerError) (s\<lparr>db_providers := providers\<rparr>)
      | (Resolved providerData None, providers) \<Rightarrow>
          (case experienceDetails formData of
             None \<Rightarrow> (Success providerData, s\<lparr>db_providers := providers\<rparr>)
           | Some details \<Rightarrow>
               (case providerData of
                  None \<Rightarrow> submit_failed (Error ''TypeError'') (s\<lparr>db_providers := providers\<rparr>)
                | Some provider \<Rightarrow>
                    (case mutate f_experience
                            (\<lambda>table. table @
                               [experience_of_details parseFloat (provider_id provider) details])
                            (db_provider_experiences s) of
                       (Rejected, rows) \<Rightarrow>
                         submit_failed NetworkError
                           (s\<lparr>db_providers := providers, db_provider_experiences := rows\<rparr>)
                     | (Resolved d (Some experienceError), rows) \<Rightarrow>
                         submit_failed (BackendError experienceError)
                           (s\<lparr>db_providers := providers, db_provider_experiences := rows\<rparr>)
                     | (Resolved d None, rows) \<Rightarrow>
                         (Success providerData,
                          s\<lparr>db_providers := providers, db_provider_experiences := rows\<rparr>)))))"

section \<open>Example states\<close>

definition kayak :: Experience where
  "kayak = \<lparr>exp_id = ''kayak'', title = ''Kayak tour'', price = Finite 40\<rparr>"

definition hike :: Experience where
  "hike = \<lparr>exp_id = ''hike'', title = ''Ridge hike'', price = Finite 15\<rparr>"

definition guest_world :: world where
  "guest_world =
     \<lparr>user = None, items = [], experienceCache = Map.empty, totalPrice = Finite 0,
      localStorage_cart = Absent, db_experiences = [''kayak'', ''hike''],
      db_cart_items = [], db_rank = row_id, db_bookings = [], db_booking_items = [],
      toasts = []\<rparr>"

definition alice_world :: world where
  "alice_world =
     guest_world
       \<lparr>user := Some ''alice'',
        items := [\<lparr>experienceId = ''kayak'', quantity = 2, date = Some ''2024-03-19''\<rparr>,
                  \<lparr>experienceId = ''hike'', quantity = 1, date = Some ''2024-03-20''\<rparr>],
        experienceCache := [''kayak'' \<mapsto> kayak],
        db_cart_items :=
          [\<lparr>row_id = 1, row_user = ''alice'', row_experience = ''kayak'', row_quantity = 2,
            row_date = ''2024-03-19''\<rparr>,
           \<lparr>row_id = 2, row_user = ''bob'', row_experience = ''kayak'', row_quantity = 5,
            row_date = ''2024-03-01''\<rparr>,
           \<lparr>row_id = 3, row_user = ''alice'', row_experience = ''hike'', row_quantity = 1,
            row_date = ''2024-03-20''\<rparr>]\<rparr>"

definition acme_form :: provider_form where
  "acme_form =
     \<lparr>companyName = ''Acme'', email = ''a@acme.test'', contactNo = ''555'', location = ''Goa'',
      experienceDetails =
        Some \<lparr>ed_name = ''Dive'', ed_description = ''Reef dive'', ed_image = ''dive.png'',
              ed_price = ''40'', ed_location = ''Goa'', ed_duration = ''2h'',
              ed_participants = ''4'', ed_date = ''2024-04-01'', ed_category = ''water''\<rparr>\<rparr>"

definition empty_provider_world :: provider_world where
  "empty_provider_world =
     \<lparr>db_providers = [], db_provider_experiences = [], provider_toasts = []\<rparr>"

text \<open>The double nearest to one tenth, and a guest cart with three items at that price.\<close>

definition tenth :: number where
  "tenth = Finite (3602879701896397 / 36028797018963968)"

definition tenth_world :: world where
  "tenth_world =
     guest_world
       \<lparr>items := [\<lparr>experienceId = ''kayak'', quantity = 3, date = None\<rparr>],
        experienceCache :=
          [''kayak'' \<mapsto> \<lparr>exp_id = ''kayak'', title = ''Kayak tour'', price = tenth\<rparr>]\<rparr>"

text \<open>A guest who added an experience and removed it again.\<close>

definition returning_guest :: world where
  "returning_guest =
     removeFromCart ''kayak'' NoFault
       (snd (addToCart ''kayak'' None NoFault NoFault NoFault NoFault guest_world))"

text \<open>A signed-in user with an empty cart; a cart table holding two rows for the same user
  and experience; a guest line whose quantity is \<open>2 ^ 53\<close>.\<close>

definition carol_world :: world where
  "carol_world = guest_world\<lparr>user := Some ''carol''\<rparr>"

definition duplicate_world :: world where
  "duplicate_world =
     alice_world
       \<lparr>db_cart_items :=
          db_cart_items alice_world @
            [\<lparr>row_id = 4, row_user = ''alice'', row_experience = ''kayak'', row_quantity = 1,
              row_date = ''2024-03-21''\<rparr>]\<rparr>"

definition big_guest :: world where
  "big_guest =
     guest_world
       \<lparr>items := [\<lparr>experienceId = ''kayak'', quantity = 2 ^ 53, date = None\<rparr>],
        localStorage_cart :=
          Stored [\<lparr>experienceId = ''kayak'', quantity = 2 ^ 53, date = None\<rparr>]\<rparr>"

section \<open>Properties\<close>

subsection \<open>Arithmetic on doubles\<close>

lemma round_half_even_of_int [simp]: "round_half_even (of_int k) = k"
  by (simp add: round_half_even_def)

lemma pow2_neg: "pow2 (- int k) = 1 / 2 ^ k"
  by (cases k) (simp_all add: pow2_def nat_add_distrib)

lemma ilog2_of_int:
  assumes "0 < a"
  shows "ilog2 (of_int a) = bitlen a - 1"
  using assms by (simp add: ilog2_def)

lemma floor_rat_numeral [simp]:
  "\<lfloor>numeral a / numeral b :: rat\<rfloor> = numeral a div numeral b"
  using floor_divide_of_int_eq [of "numeral a" "numeral b", where ?'a = rat] by simp

lemmas round_double_eval =
  round_double_def ilog2_def Let_def compute_bitlen pow2_def round_half_even_def

text \<open>An integer below \<open>2 ^ 53\<close> in magnitude has at most 53 bits, so it is a double.\<close>

lemma round_double_small:
  assumes "0 < a" "a < 2 ^ 53"
  shows "round_double (of_int a) = Finite (of_int a)"
    and "round_double (- of_int a) = Finite (- of_int a)"
proof -
  from assms(1) have ge: "1 \<le> bitlen a" by (simp add: bitlen_alt_def)
  from assms(2) have le: "bitlen a \<le> 53" by (simp add: bitlen_le_iff_power)
  define k where "k = nat (53 - bitlen a)"
  have u: "max (bitlen a - 1) (- 1022) - 52 = - int k"
    using ge le by (simp add: k_def)
  have big: "\<not> pow2 1024 \<le> (of_int a :: rat)"
  proof -
    have "a < 2 ^ 1024" using assms(2) by (rule less_trans) simp
    then have "(of_int a :: rat) < of_int (2 ^ 1024)" by (simp only: of_int_less_iff)
    then show ?thesis by (simp add: pow2_def)
  qed
  have q: "(of_int a :: rat) / (1 / 2 ^ k) = of_int (a * 2 ^ k)" by simp
  have y: "1 / 2 ^ k * (of_int (a * 2 ^ k) :: rat) = of_int a" by simp
  have abs: "\<bar>of_int a :: rat\<bar> = of_int a" "\<bar>- of_int a :: rat\<bar> = of_int a"
    using assms(1) by simp_all
  show "round_double (of_int a) = Finite (of_int a)"
    using assms(1) big
    by (simp only: round_double_def abs ilog2_of_int [OF assms(1)] u pow2_neg q
        round_half_even_of_int y Let_def) simp
  show "round_double (- of_int a) = Finite (- of_int a)"
    using assms(1) big
    by (simp only: round_double_def abs ilog2_of_int [OF assms(1)] u pow2_neg q
        round_half_even_of_int y Let_def) simp
qed

lemma round_double_edge:
  "round_double (2 ^ 53) = Finite (2 ^ 53)"
  "round_double (- (2 ^ 53)) = Finite (- (2 ^ 53))"
  "round_double (2 ^ 53 + 1) = Finite (2 ^ 53)"
  by (simp_all add: round_double_eval)

lemma round_double_int:
  assumes "\<bar>n\<bar> \<le> 2 ^ 53"
  shows "round_double (of_int n) = Finite (of_int n)"
proof -
  consider "n = 0" | "0 < n" "n < 2 ^ 53" | "n = 2 ^ 53" | "n < 0" "- n < 2 ^ 53"
    | "n = - (2 ^ 53)"
    using assms by linarith
  then show ?thesis
  proof cases
    case 1
    then show ?thesis by (simp add: round_double_def)
  next
    case 2
    then show ?thesis by (rule round_double_small(1))
  next
    case 3
    then show ?thesis using round_double_edge(1) by simp
  next
    case 4
    then have "0 < - n" by simp
    from round_double_small(2) [OF this 4(2)] show ?thesis by simp
  next
    case 5
    then show ?thesis using round_double_edge(2) by simp
  qed
qed

lemma num_int: "\<bar>n\<bar> \<le> 2 ^ 53 \<Longrightarrow> num n = Finite (of_int n)"
  by (simp add: num_def round_double_int)

lemma js_add_int:
  "\<bar>a + b\<bar> \<le> 2 ^ 53 \<Longrightarrow>
   js_add (Finite (of_int a)) (Finite (of_int b)) = Finite (of_int (a + b))"
  using round_double_int [of "a + b"] by simp

lemma js_increment_small:
  assumes "\<bar>q\<bar> < 2 ^ 53"
  shows "js_increment q = q + 1"
proof -
  from assms have "\<bar>q\<bar> \<le> 2 ^ 53" "\<bar>q + 1\<bar> \<le> 2 ^ 53" by simp_all
  then have "js_add (num q) (Finite 1) = Finite (of_int (q + 1))"
    using js_add_int [of q 1] by (simp add: num_int)
  then show ?thesis by (simp add: js_increment_def)
qed

text \<open>Concrete values used in the examples.\<close>

lemma round_double_numeral:
  "numeral k \<le> (9007199254740992::int) \<Longrightarrow> round_double (numeral k) = Finite (numeral k)"
  using round_double_int [of "numeral k"] by simp

lemma round_double_0_1: "round_double 0 = Finite 0" "round_double 1 = Finite 1"
  using round_double_int [of 0] round_double_int [of 1] by simp_all

lemma num_small [simp]:
  "num 0 = Finite 0" "num 1 = Finite 1" "num 2 = Finite 2" "num 3 = Finite 3"
  using num_int [of 0] num_int [of 1] num_int [of 2] num_int [of 3] by simp_all

text \<open>One tenth is not a double; the nearest one is \<open>tenth\<close>. Three times \<open>tenth\<close>
  is not a double either, and rounds upwards.\<close>

lemma round_double_examples:
  "round_double (1 / 10) = Finite (3602879701896397 / 36028797018963968)"
  "round_double (10808639105689191 / 36028797018963968) =
     Finite (1351079888211149 / 4503599627370496)"
  "round_double (1351079888211149 / 4503599627370496) =
     Finite (1351079888211149 / 4503599627370496)"
  by (simp_all add: round_double_eval)

subsection \<open>Item count\<close>

lemma itemCount_from:
  "\<bar>a\<bar> + (\<Sum>item\<leftarrow>its. \<bar>quantity item\<bar>) \<le> 2 ^ 53 \<Longrightarrow>
   foldl (\<lambda>total item. js_add total (num (quantity item))) (Finite (of_int a)) its =
     Finite (of_int (a + sum_list (map quantity its)))"
proof (induction its arbitrary: a)
  case Nil
  then show ?case by simp
next
  case (Cons item rest)
  have nonneg: "0 \<le> (\<Sum>item\<leftarrow>rest. \<bar>quantity item\<bar>)"
    by (rule sum_list_nonneg) auto
  from Cons.prems nonneg have q: "\<bar>quantity item\<bar> \<le> 2 ^ 53"
    and aq: "\<bar>a + quantity item\<bar> \<le> 2 ^ 53"
    and rest: "\<bar>a + quantity item\<bar> + (\<Sum>item\<leftarrow>rest. \<bar>quantity item\<bar>) \<le> 2 ^ 53"
    by simp_all
  have s: "round_double (of_int a + of_int (quantity item)) =
             Finite (of_int a + of_int (quantity item))"
    using round_double_int [OF aq] by simp
  from Cons.IH [OF rest] show ?case
    by (simp add: num_int [OF q] s add.assoc)
qed

text \<open>C9, as stated, fails: the count is a sum of doubles, and for a line of quantity
  \<open>2 ^ 53\<close> followed by a line of quantity 1 it is \<open>2 ^ 53\<close>, not the sum of the
  quantities.\<close>

theorem itemCount_rounds:
  "itemCount [\<lparr>experienceId = ''kayak'', quantity = 2 ^ 53, date = None\<rparr>,
              \<lparr>experienceId = ''hike'', quantity = 1, date = None\<rparr>] = Finite (2 ^ 53)
   \<and> sum_list (map quantity
        [\<lparr>experienceId = ''kayak'', quantity = 2 ^ 53, date = None\<rparr>,
         \<lparr>experienceId = ''hike'', quantity = 1, date = None\<rparr>]) = 2 ^ 53 + 1"
proof -
  have a: "num (2 ^ 53) = Finite (2 ^ 53)"
    using num_int [of "2 ^ 53"] by simp
  have b: "js_add (Finite 0) (Finite (2 ^ 53)) = Finite (2 ^ 53)"
    using round_double_edge(1) by simp
  have c: "js_add (Finite (2 ^ 53)) (Finite 1) = Finite (2 ^ 53)"
    using round_double_edge(3) by simp
  show ?thesis
    by (simp only: itemCount_def foldl.simps CartItem.simps a b c num_small list.map
        sum_list.Cons sum_list.Nil) simp
qed

text \<open>C9, amended. For every cart item list whose quantities add up, in magnitude, to at
  most \<open>2 ^ 53\<close>, the derived item count is the sum of the quantities of all lines (not
  the number of lines).\<close>

theorem itemCount_sums_quantities:
  assumes "(\<Sum>item\<leftarrow>its. \<bar>quantity item\<bar>) \<le> 2 ^ 53"
  shows "itemCount its = Finite (of_int (sum_list (map quantity its)))"
  using itemCount_from [of 0 its] assms by (simp add: itemCount_def)

theorem itemCount_sums_quantities_witness:
  "(\<Sum>item\<leftarrow>items alice_world. \<bar>quantity item\<bar>) \<le> 2 ^ 53
   \<and> length (items alice_world) = 2
   \<and> itemCount (items alice_world) = Finite 3"
proof -
  have h: "(\<Sum>item\<leftarrow>items alice_world. \<bar>quantity item\<bar>) \<le> 2 ^ 53"
    by (simp add: alice_world_def guest_world_def)
  from itemCount_sums_quantities [OF h] h show ?thesis
    by (simp add: alice_world_def guest_world_def)
qed

subsection \<open>Total price\<close>

lemma cart_total_fold:
  "cart_total cache its =
     foldl js_add (Finite 0)
       (map (\<lambda>item.
               js_mul (case cache (experienceId item) of
                         None \<Rightarrow> Finite 0
                       | Some x \<Rightarrow> if price x = NaN then Finite 0 else price x)
                 (num (quantity item))) its)"
proof -
  have "price_or_zero e =
          (case e of None \<Rightarrow> Finite 0 | Some x \<Rightarrow> if price x = NaN then Finite 0 else price x)"
    for e
    by (simp add: price_or_zero_def split: option.splits)
  then show ?thesis
    by (simp add: cart_total_def foldl_map)
qed

lemma cart_total_from:
  assumes "\<forall>item\<in>set its.
             price_or_zero (cache (experienceId item)) = Finite (of_int (p (experienceId item)))
             \<and> \<bar>quantity item\<bar> \<le> 2 ^ 53"
    and "\<bar>a\<bar> + (\<Sum>item\<leftarrow>its. \<bar>p (experienceId item) * quantity item\<bar>) \<le> 2 ^ 53"
  shows "foldl (\<lambda>sum item.
                  js_add sum (js_mul (price_or_zero (cache (experienceId item)))
                                (num (quantity item))))
           (Finite (of_int a)) its =
         Finite (of_int (a + (\<Sum>item\<leftarrow>its. p (experienceId item) * quantity item)))"
  using assms
proof (induction its arbitrary: a)
  case Nil
  then show ?case by simp
next
  case (Cons item rest)
  let ?t = "p (experienceId item) * quantity item"
  have nonneg: "0 \<le> (\<Sum>item\<leftarrow>rest. \<bar>p (experienceId item) * quantity item\<bar>)"
    by (rule sum_list_nonneg) auto
  from Cons.prems have pr: "price_or_zero (cache (experienceId item)) =
      Finite (of_int (p (experienceId item)))" and q: "\<bar>quantity item\<bar> \<le> 2 ^ 53"
    by simp_all
  from Cons.prems(2) nonneg have t: "\<bar>?t\<bar> \<le> 2 ^ 53" and at: "\<bar>a + ?t\<bar> \<le> 2 ^ 53"
    and rest: "\<bar>a + ?t\<bar> + (\<Sum>item\<leftarrow>rest. \<bar>p (experienceId item) * quantity item\<bar>) \<le> 2 ^ 53"
    by simp_all
  from Cons.prems(1) have all: "\<forall>item\<in>set rest.
             price_or_zero (cache (experienceId item)) = Finite (of_int (p (experienceId item)))
             \<and> \<bar>quantity item\<bar> \<le> 2 ^ 53" by simp
  have m: "round_double (of_int (p (experienceId item)) * of_int (quantity item)) =
             Finite (of_int (p (experienceId item)) * of_int (quantity item))"
    using round_double_int [OF t] by simp
  have s: "round_double (of_int a + of_int (p (experienceId item)) * of_int (quantity item)) =
             Finite (of_int a + of_int (p (experienceId item)) * of_int (quantity item))"
    using round_double_int [OF at] by simp
  from Cons.IH [OF all rest] show ?case
    by (simp add: pr num_int [OF q] m s add.assoc)
qed

lemma fetch_loop_True: "snd (fetch_loop g its (c, True)) = True"
  by (induction its arbitrary: c) (auto split: option.splits)

text \<open>When the loop reports that nothing was fetched, its copy of the cache is the cache
  it started from, so skipping \<^verbatim>\<open>setExperienceCache\<close> loses nothing.\<close>

lemma fetch_loop_unchanged:
  "fetch_loop g its (c, b) = (c', False) \<Longrightarrow> c' = c"
proof (induction its arbitrary: c b)
  case Nil
  then show ?case by simp
next
  case (Cons item rest)
  show ?case
  proof (cases "cache_truthy c (experienceId item)")
    case True
    with Cons show ?thesis by simp
  next
    case False
    show ?thesis
    proof (cases "g (experienceId item)")
      case None
      with False Cons show ?thesis by simp
    next
      case (Some experience)
      with False Cons.prems
      have "fetch_loop g rest (c(experienceId item \<mapsto> experience), True) = (c', False)"
        by simp
      then have "snd (fetch_loop g rest (c(experienceId item \<mapsto> experience), True)) = False"
        by simp
      then show ?thesis by (simp add: fetch_loop_True)
    qed
  qed
qed

lemma fetchExperiencesForCart_total:
  "totalPrice (fetchExperiencesForCart g s) =
     cart_total (experienceCache (fetchExperiencesForCart g s)) (items s)"
  "items (fetchExperiencesForCart g s) = items s"
proof -
  obtain newCache needsUpdate
    where l: "fetch_loop g (items s) (experienceCache s, False) = (newCache, needsUpdate)"
    by (cases "fetch_loop g (items s) (experienceCache s, False)")
  have "needsUpdate \<or> newCache = experienceCache s"
    using l by (cases needsUpdate) (auto dest: fetch_loop_unchanged)
  with l show "totalPrice (fetchExperiencesForCart g s) =
     cart_total (experienceCache (fetchExperiencesForCart g s)) (items s)"
    by (auto simp: fetchExperiencesForCart_def)
  from l show "items (fetchExperiencesForCart g s) = items s"
    by (simp add: fetchExperiencesForCart_def)
qed

text \<open>C4, as stated, fails: the total is computed in double arithmetic. With one line of
  quantity 3 for an experience cached at the price 0.1 (the double nearest to one tenth),
  \<open>totalPrice\<close> is the double 0.30000000000000004, which is not three times that
  price.\<close>

theorem totalPrice_rounds:
  "experienceCache (fetchExperiencesForCart Map.empty tenth_world) ''kayak'' =
     Some \<lparr>exp_id = ''kayak'', title = ''Kayak tour'',
           price = Finite (3602879701896397 / 36028797018963968)\<rparr>
   \<and> map quantity (items (fetchExperiencesForCart Map.empty tenth_world)) = [3]
   \<and> totalPrice (fetchExperiencesForCart Map.empty tenth_world) =
       Finite (1351079888211149 / 4503599627370496)
   \<and> totalPrice (fetchExperiencesForCart Map.empty tenth_world) \<noteq>
       Finite (3 * (3602879701896397 / 36028797018963968))"
proof -
  have c: "experienceCache (fetchExperiencesForCart Map.empty tenth_world) ''kayak'' =
     Some \<lparr>exp_id = ''kayak'', title = ''Kayak tour'',
           price = Finite (3602879701896397 / 36028797018963968)\<rparr>"
    by (simp add: fetchExperiencesForCart_def tenth_world_def guest_world_def tenth_def
        cache_truthy_def)
  note m = round_double_examples(2)
  note a = round_double_examples(3)
  have i: "items tenth_world = [\<lparr>experienceId = ''kayak'', quantity = 3, date = None\<rparr>]"
    by (simp add: tenth_world_def guest_world_def)
  have t: "totalPrice (fetchExperiencesForCart Map.empty tenth_world) =
       Finite (1351079888211149 / 4503599627370496)"
    by (simp add: fetchExperiencesForCart_total i cart_total_def c price_or_zero_def m a)
  show ?thesis
    by (simp add: c t fetchExperiencesForCart_total(2) i)
qed

text \<open>C4, amended. After the effect that recomputes the total has run, \<open>totalPrice\<close> is the
  sum, added in cart order in double arithmetic, over all cart lines of the double product
  of the cached price and the line's quantity; a line whose experience is not in the
  cache contributes 0 (and so does a cached price that is NaN). The cache is the one the
  effect leaves behind; the cart lines are not touched. Whenever the prices are integers
  and the products add up, in magnitude, to at most \<open>2 ^ 53\<close>, no rounding occurs and
  \<open>totalPrice\<close> is exactly the sum of price times quantity.\<close>

theorem totalPrice_is_sum_of_cached_prices:
  "totalPrice (fetchExperiencesForCart g s) =
     foldl js_add (Finite 0)
       (map (\<lambda>item.
               js_mul (case experienceCache (fetchExperiencesForCart g s) (experienceId item) of
                         None \<Rightarrow> Finite 0
                       | Some x \<Rightarrow> if price x = NaN then Finite 0 else price x)
                 (num (quantity item)))
          (items (fetchExperiencesForCart g s)))
   \<and> items (fetchExperiencesForCart g s) = items s
   \<and> ((\<forall>item\<in>set (items s).
          (case experienceCache (fetchExperiencesForCart g s) (experienceId item) of
             None \<Rightarrow> Finite 0 | Some x \<Rightarrow> price x) = Finite (of_int (p (experienceId item)))
          \<and> \<bar>quantity item\<bar> \<le> 2 ^ 53)
        \<and> (\<Sum>item\<leftarrow>items s. \<bar>p (experienceId item) * quantity item\<bar>) \<le> 2 ^ 53 \<longrightarrow>
       totalPrice (fetchExperiencesForCart g s) =
         Finite (of_int (\<Sum>item\<leftarrow>items s. p (experienceId item) * quantity item)))"
proof (intro conjI impI)
  show "totalPrice (fetchExperiencesForCart g s) =
     foldl js_add (Finite 0)
       (map (\<lambda>item.
               js_mul (case experienceCache (fetchExperiencesForCart g s) (experienceId item) of
                         None \<Rightarrow> Finite 0
                       | Some x \<Rightarrow> if price x = NaN then Finite 0 else price x)
                 (num (quantity item)))
          (items (fetchExperiencesForCart g s)))"
    by (simp only: fetchExperiencesForCart_total cart_total_fold)
  show "items (fetchExperiencesForCart g s) = items s"
    by (rule fetchExperiencesForCart_total)
next
  let ?c = "experienceCache (fetchExperiencesForCart g s)"
  assume h: "(\<forall>item\<in>set (items s).
          (case ?c (experienceId item) of
             None \<Rightarrow> Finite 0 | Some x \<Rightarrow> price x) = Finite (of_int (p (experienceId item)))
          \<and> \<bar>quantity item\<bar> \<le> 2 ^ 53)
        \<and> (\<Sum>item\<leftarrow>items s. \<bar>p (experienceId item) * quantity item\<bar>) \<le> 2 ^ 53"
  have "\<forall>item\<in>set (items s).
          price_or_zero (?c (experienceId item)) = Finite (of_int (p (experienceId item)))
          \<and> \<bar>quantity item\<bar> \<le> 2 ^ 53"
  proof
    fix item assume "item \<in> set (items s)"
    with h have e: "(case ?c (experienceId item) of
             None \<Rightarrow> Finite 0 | Some x \<Rightarrow> price x) = Finite (of_int (p (experienceId item)))"
      and q: "\<bar>quantity item\<bar> \<le> 2 ^ 53" by simp_all
    from e have "price_or_zero (?c (experienceId item)) = Finite (of_int (p (experienceId item)))"
      by (auto simp: price_or_zero_def split: option.splits)
    with q show "price_or_zero (?c (experienceId item)) = Finite (of_int (p (experienceId item)))
          \<and> \<bar>quantity item\<bar> \<le> 2 ^ 53" by simp
  qed
  from cart_total_from [OF this, of 0] h
  show "totalPrice (fetchExperiencesForCart g s) =
         Finite (of_int (\<Sum>item\<leftarrow>items s. p (experienceId item) * quantity item))"
    by (simp add: fetchExperiencesForCart_total cart_total_def)
qed

theorem totalPrice_is_sum_of_cached_prices_witness:
  "totalPrice (fetchExperiencesForCart [''hike'' \<mapsto> hike] alice_world) = Finite 95
   \<and> experienceCache (fetchExperiencesForCart [''hike'' \<mapsto> hike] alice_world) ''hike''
       = Some hike
   \<and> totalPrice (fetchExperiencesForCart Map.empty alice_world) = Finite 80"
proof -
  let ?p = "\<lambda>e. if e = ''kayak'' then 40 else if e = ''hike'' then 15 else (0::int)"
  let ?q = "\<lambda>e. if e = ''kayak'' then 40 else (0::int)"
  have i: "items alice_world =
      [\<lparr>experienceId = ''kayak'', quantity = 2, date = Some ''2024-03-19''\<rparr>,
       \<lparr>experienceId = ''hike'', quantity = 1, date = Some ''2024-03-20''\<rparr>]"
    by (simp add: alice_world_def guest_world_def)
  have c: "experienceCache (fetchExperiencesForCart [''hike'' \<mapsto> hike] alice_world) =
             [''kayak'' \<mapsto> kayak, ''hike'' \<mapsto> hike]"
    by (simp add: fetchExperiencesForCart_def alice_world_def guest_world_def cache_truthy_def
        object_prototype_members_def)
  have d: "experienceCache (fetchExperiencesForCart Map.empty alice_world) =
             [''kayak'' \<mapsto> kayak]"
    by (simp add: fetchExperiencesForCart_def alice_world_def guest_world_def cache_truthy_def
        object_prototype_members_def)
  note totalPrice_is_sum_of_cached_prices [of "[''hike'' \<mapsto> hike]" alice_world ?p]
    totalPrice_is_sum_of_cached_prices [of Map.empty alice_world ?q]
  moreover
  have pk: "price kayak = Finite 40" and ph: "price hike = Finite 15"
    by (simp_all add: kayak_def hike_def)
  ultimately show ?thesis
    by (simp add: i c d pk ph round_double_numeral round_double_0_1)
qed

subsection \<open>Checkout\<close>

text \<open>C1, as stated, fails: with both inserts successful and the delete inside
  \<^verbatim>\<open>clearCart\<close> answered by an error, checkout returns true and the cart still holds
  its lines.\<close>

theorem checkout_true_without_clearing:
  "fst (checkout NoFault NoFault (Fails ''500'') alice_world)
   \<and> items (snd (checkout NoFault NoFault (Fails ''500'') alice_world)) = items alice_world
   \<and> items alice_world \<noteq> []"
  by (simp add: checkout_def insert_returning_def mutate_def clearCart_def Let_def
      alice_world_def guest_world_def)

text \<open>C1, amended. Checkout returns true exactly when the user is signed in, the cart is
  not empty and both inserts succeeded; on every other path it returns false. The item
  list (and the user's remote cart rows) are emptied exactly when checkout returns true
  and the delete inside \<^verbatim>\<open>clearCart\<close> succeeded as well; otherwise they are left
  unchanged. Local storage is never touched.\<close>

theorem checkout_clears_only_after_inserts:
  "fst (checkout fb fi fc s) =
     (user s \<noteq> None \<and> items s \<noteq> [] \<and> fb = NoFault \<and> fi = NoFault)
   \<and> items (snd (checkout fb fi fc s)) =
       (if fst (checkout fb fi fc s) \<and> fc = NoFault then [] else items s)
   \<and> db_cart_items (snd (checkout fb fi fc s)) =
       (if fst (checkout fb fi fc s) \<and> fc = NoFault
        then filter (\<lambda>r. Some (row_user r) \<noteq> user s) (db_cart_items s)
        else db_cart_items s)
   \<and> localStorage_cart (snd (checkout fb fi fc s)) = localStorage_cart s"
  by (auto simp: checkout_def insert_returning_def mutate_def clearCart_def Let_def
      split: option.splits fault.splits)

theorem checkout_clears_only_after_inserts_witness:
  "fst (checkout NoFault NoFault NoFault alice_world)
   \<and> items (snd (checkout NoFault NoFault NoFault alice_world)) = []
   \<and> \<not> fst (checkout NoFault Throws NoFault alice_world)
   \<and> items (snd (checkout NoFault Throws NoFault alice_world)) = items alice_world"
  using checkout_clears_only_after_inserts [of NoFault NoFault NoFault alice_world]
    checkout_clears_only_after_inserts [of NoFault Throws NoFault alice_world]
  by (simp add: alice_world_def guest_world_def)

text \<open>C5. Checkout with an empty cart returns false and changes nothing but the toasts:
  no booking and no booking item is inserted, and the cart (item list, remote rows,
  local storage) is as before.\<close>

theorem checkout_empty_cart:
  assumes "items s = []"
  shows "fst (checkout fb fi fc s) = False
       \<and> snd (checkout fb fi fc s) =
           s\<lparr>toasts := toasts s @
                [ToastError (if user s = None then ''Please log in to checkout''
                             else ''Your cart is empty'')]\<rparr>"
  using assms by (simp add: checkout_def split: option.splits)

theorem checkout_empty_cart_witness:
  "items (guest_world\<lparr>user := Some ''alice''\<rparr>) = []
   \<and> fst (checkout NoFault NoFault NoFault (guest_world\<lparr>user := Some ''alice''\<rparr>)) = False
   \<and> snd (checkout NoFault NoFault NoFault (guest_world\<lparr>user := Some ''alice''\<rparr>)) =
       guest_world\<lparr>user := Some ''alice'', toasts := [ToastError ''Your cart is empty'']\<rparr>"
  using checkout_empty_cart [of "guest_world\<lparr>user := Some ''alice''\<rparr>" NoFault NoFault NoFault]
  by (simp add: guest_world_def)

lemma clearCart_keeps_bookings:
  "db_bookings (clearCart fc x) = db_bookings x"
  "db_booking_items (clearCart fc x) = db_booking_items x"
  by (auto simp: clearCart_def mutate_def split: option.splits fault.splits)

lemma bookingItems_rows:
  "bookingItems cache bid its =
     map (\<lambda>item.
            \<lparr>bi_booking_id = bid, bi_experience_id = experienceId item,
             bi_quantity = quantity item,
             price_at_booking =
               (case cache (experienceId item) of
                  None \<Rightarrow> Finite 0
                | Some x \<Rightarrow> if price x = NaN then Finite 0 else price x)\<rparr>) its"
  by (simp add: bookingItems_def price_or_zero_def split: option.splits)

text \<open>C2, as stated, fails. When the booking insert succeeds and the booking-items insert
  fails, checkout has reached the insert phase, the inserted booking row carries the
  total (here 80) and no booking-item row exists. And when both inserts succeed, the
  total is a sum of doubles: for one line of quantity 3 at the price 0.1 the booking row
  carries 0.30000000000000004, which is not three times the \<open>price_at_booking\<close> of the
  inserted row.\<close>

theorem checkout_orphan_booking:
  "\<not> fst (checkout NoFault (Fails ''500'') NoFault alice_world)
   \<and> db_bookings alice_world = []
   \<and> db_booking_items alice_world = []
   \<and> map total_amount
        (db_bookings (snd (checkout NoFault (Fails ''500'') NoFault alice_world))) = [Finite 80]
   \<and> db_booking_items (snd (checkout NoFault (Fails ''500'') NoFault alice_world)) = []
   \<and> fst (checkout NoFault NoFault NoFault (tenth_world\<lparr>user := Some ''alice''\<rparr>))
   \<and> map price_at_booking
        (db_booking_items
           (snd (checkout NoFault NoFault NoFault (tenth_world\<lparr>user := Some ''alice''\<rparr>))))
       = [Finite (3602879701896397 / 36028797018963968)]
   \<and> map bi_quantity
        (db_booking_items
           (snd (checkout NoFault NoFault NoFault (tenth_world\<lparr>user := Some ''alice''\<rparr>))))
       = [3]
   \<and> map total_amount
        (db_bookings
           (snd (checkout NoFault NoFault NoFault (tenth_world\<lparr>user := Some ''alice''\<rparr>))))
       = [Finite (1351079888211149 / 4503599627370496)]
   \<and> Finite (3 * (3602879701896397 / 36028797018963968)) \<noteq>
       Finite (1351079888211149 / 4503599627370496)"
proof -
  have c: "cart_total (experienceCache alice_world) (items alice_world) = Finite 80"
    by (simp add: cart_total_def price_or_zero_def alice_world_def guest_world_def kayak_def
        round_double_numeral round_double_0_1)
  have u: "user alice_world = Some ''alice''" "items alice_world \<noteq> []"
    "db_bookings alice_world = []" "db_booking_items alice_world = []"
    by (simp_all add: alice_world_def guest_world_def)
  have orphan: "\<not> fst (checkout NoFault (Fails ''500'') NoFault alice_world)
   \<and> map total_amount
        (db_bookings (snd (checkout NoFault (Fails ''500'') NoFault alice_world))) = [Finite 80]
   \<and> db_booking_items (snd (checkout NoFault (Fails ''500'') NoFault alice_world)) = []"
    by (simp add: checkout_def insert_returning_def mutate_def Let_def c u)
  let ?t = "tenth_world\<lparr>user := Some ''alice''\<rparr>"
  have tu:
    "items tenth_world = [\<lparr>experienceId = ''kayak'', quantity = 3, date = None\<rparr>]"
    "db_bookings tenth_world = []" "db_booking_items tenth_world = []"
    "experienceCache tenth_world ''kayak'' =
       Some \<lparr>exp_id = ''kayak'', title = ''Kayak tour'',
             price = Finite (3602879701896397 / 36028797018963968)\<rparr>"
    by (simp_all add: tenth_world_def guest_world_def tenth_def)
  have tc: "cart_total (experienceCache ?t) (items ?t) =
              Finite (1351079888211149 / 4503599627370496)"
    by (simp add: cart_total_def price_or_zero_def tu round_double_examples)
  have rounded: "fst (checkout NoFault NoFault NoFault ?t)
   \<and> map price_at_booking (db_booking_items (snd (checkout NoFault NoFault NoFault ?t)))
       = [Finite (3602879701896397 / 36028797018963968)]
   \<and> map bi_quantity (db_booking_items (snd (checkout NoFault NoFault NoFault ?t))) = [3]
   \<and> map total_amount (db_bookings (snd (checkout NoFault NoFault NoFault ?t)))
       = [Finite (1351079888211149 / 4503599627370496)]"
    using tc
    by (simp add: checkout_def insert_returning_def mutate_def Let_def
        clearCart_keeps_bookings bookingItems_def price_or_zero_def tu)
  from orphan rounded u show ?thesis by simp
qed

text \<open>C2, amended. For every checkout that reaches the insert phase (a signed-in user, a
  cart that is not empty): the booking-item rows it builds, one per cart line, and the
  total it writes on the booking row come from the same snapshot of the experience cache
  (an uncached experience counting 0), and the sum over these rows of
  \<open>price_at_booking\<close> times \<open>quantity\<close>, added in row order in double arithmetic, is
  that \<open>total_amount\<close>; with integer prices and products that add up, in magnitude, to
  at most \<open>2 ^ 53\<close> it is the exact sum. The booking row is inserted exactly when the
  booking insert succeeds, and the rows exactly when both inserts succeed: when the
  booking-items insert fails, the booking row stays, with its total and without
  items.\<close>

theorem booking_items_sum_is_total:
  assumes "user s = Some uid" "items s \<noteq> []"
  shows "(let booking =
                \<lparr>booking_id = fresh_id (map booking_id (db_bookings s)), booking_user = uid,
                 total_amount = cart_total (experienceCache s) (items s),
                 status = ''confirmed'', payment_method = ''credit_card'',
                 booking_notes = ''Processed via web checkout''\<rparr>;
              rows =
                map (\<lambda>item.
                       \<lparr>bi_booking_id = booking_id booking,
                        bi_experience_id = experienceId item, bi_quantity = quantity item,
                        price_at_booking =
                          (case experienceCache s (experienceId item) of
                             None \<Rightarrow> Finite 0
                           | Some x \<Rightarrow> if price x = NaN then Finite 0 else price x)\<rparr>)
                  (items s);
              s' = snd (checkout fb fi fc s)
          in foldl js_add (Finite 0)
               (map (\<lambda>r. js_mul (price_at_booking r) (num (bi_quantity r))) rows)
               = total_amount booking
           \<and> db_bookings s' =
               (if fb = NoFault then db_bookings s @ [booking] else db_bookings s)
           \<and> db_booking_items s' =
               (if fb = NoFault \<and> fi = NoFault then db_booking_items s @ rows
                else db_booking_items s)
           \<and> ((\<forall>item\<in>set (items s).
                  (case experienceCache s (experienceId item) of
                     None \<Rightarrow> Finite 0 | Some x \<Rightarrow> price x)
                    = Finite (of_int (p (experienceId item)))
                  \<and> \<bar>quantity item\<bar> \<le> 2 ^ 53)
                \<and> (\<Sum>item\<leftarrow>items s. \<bar>p (experienceId item) * quantity item\<bar>) \<le> 2 ^ 53 \<longrightarrow>
               total_amount booking =
                 Finite (of_int (\<Sum>item\<leftarrow>items s. p (experienceId item) * quantity item))))"
proof -
  have sum: "foldl js_add (Finite 0)
               (map (\<lambda>r. js_mul (price_at_booking r) (num (bi_quantity r)))
                  (bookingItems (experienceCache s) bid (items s)))
             = cart_total (experienceCache s) (items s)" for bid
    by (simp add: cart_total_fold bookingItems_rows comp_def)
  have tables:
    "db_bookings (snd (checkout fb fi fc s)) =
       (if fb = NoFault
        then db_bookings s @
               [\<lparr>booking_id = fresh_id (map booking_id (db_bookings s)), booking_user = uid,
                 total_amount = cart_total (experienceCache s) (items s),
                 status = ''confirmed'', payment_method = ''credit_card'',
                 booking_notes = ''Processed via web checkout''\<rparr>]
        else db_bookings s)"
    "db_booking_items (snd (checkout fb fi fc s)) =
       (if fb = NoFault \<and> fi = NoFault
        then db_booking_items s @
               bookingItems (experienceCache s) (fresh_id (map booking_id (db_bookings s)))
                 (items s)
        else db_booking_items s)"
    using assms
    by (auto simp: checkout_def insert_returning_def mutate_def Let_def
        clearCart_keeps_bookings split: fault.splits)
  have exact: "cart_total (experienceCache s) (items s) =
                 Finite (of_int (\<Sum>item\<leftarrow>items s. p (experienceId item) * quantity item))"
    if h: "(\<forall>item\<in>set (items s).
              (case experienceCache s (experienceId item) of
                 None \<Rightarrow> Finite 0 | Some x \<Rightarrow> price x)
                = Finite (of_int (p (experienceId item)))
              \<and> \<bar>quantity item\<bar> \<le> 2 ^ 53)
           \<and> (\<Sum>item\<leftarrow>items s. \<bar>p (experienceId item) * quantity item\<bar>) \<le> 2 ^ 53"
  proof -
    have "\<forall>item\<in>set (items s).
            price_or_zero (experienceCache s (experienceId item))
              = Finite (of_int (p (experienceId item)))
            \<and> \<bar>quantity item\<bar> \<le> 2 ^ 53"
      using h by (auto simp: price_or_zero_def split: option.splits)
    from cart_total_from [OF this, of 0] h show ?thesis
      by (simp add: cart_total_def)
  qed
  show ?thesis
    unfolding Let_def
    using sum [of "fresh_id (map booking_id (db_bookings s))"] exact
    by (simp add: tables bookingItems_rows)
qed

theorem booking_items_sum_is_total_witness:
  "fst (checkout NoFault NoFault NoFault alice_world)
   \<and> map total_amount (db_bookings (snd (checkout NoFault NoFault NoFault alice_world)))
       = [Finite 80]
   \<and> map price_at_booking
        (db_booking_items (snd (checkout NoFault NoFault NoFault alice_world)))
       = [Finite 40, Finite 0]
   \<and> map bi_quantity
        (db_booking_items (snd (checkout NoFault NoFault NoFault alice_world))) = [2, 1]
   \<and> map bi_booking_id
        (db_booking_items (snd (checkout NoFault NoFault NoFault alice_world))) = [1, 1]
   \<and> map booking_id (db_bookings (snd (checkout NoFault NoFault NoFault alice_world))) = [1]"
proof -
  have u: "user alice_world = Some ''alice''" and i: "items alice_world \<noteq> []"
    by (simp_all add: alice_world_def guest_world_def)
  have c: "cart_total (experienceCache alice_world) (items alice_world) = Finite 80"
    by (simp add: cart_total_def price_or_zero_def alice_world_def guest_world_def kayak_def
        round_double_numeral round_double_0_1)
  have f: "fst (checkout NoFault NoFault NoFault alice_world)"
    by (simp add: checkout_def insert_returning_def mutate_def Let_def u i)
  have t: "db_bookings alice_world = []" "db_booking_items alice_world = []"
    "items alice_world =
      [\<lparr>experienceId = ''kayak'', quantity = 2, date = Some ''2024-03-19''\<rparr>,
       \<lparr>experienceId = ''hike'', quantity = 1, date = Some ''2024-03-20''\<rparr>]"
    "experienceCache alice_world = [''kayak'' \<mapsto> kayak]"
    by (simp_all add: alice_world_def guest_world_def)
  have pk: "price kayak = Finite 40" by (simp add: kayak_def)
  from c have c': "cart_total [''kayak'' \<mapsto> kayak]
      [\<lparr>experienceId = ''kayak'', quantity = 2, date = Some ''2024-03-19''\<rparr>,
       \<lparr>experienceId = ''hike'', quantity = 1, date = Some ''2024-03-20''\<rparr>] = Finite 80"
    by (simp only: t)
  from booking_items_sum_is_total
         [OF u i, of NoFault NoFault NoFault "\<lambda>e. if e = ''kayak'' then 40 else 0"] f
  show ?thesis
    by (simp add: Let_def c' t pk fresh_id_def)
qed

subsection \<open>Toasts\<close>

lemma fetchCartItems_toasts: "toasts (snd (fetchCartItems f s)) = toasts s"
  by (simp add: fetchCartItems_def select_def split: option.splits fault.splits)

lemma addToCart_toasts: "toasts (snd (addToCart eid d f1 f2 f3 f4 s)) = toasts s"
  by (auto simp: addToCart_def guest_add_def remote_add_def single_def mutate_def Let_def
      insert_cart_row_def fetchCartItems_toasts
      split: option.splits local_cart.splits fault.splits list.splits)

lemma removeFromCart_toasts:
  "toasts (removeFromCart eid f s) =
     toasts s @ [if user s = None \<or> f = NoFault then ToastSuccess ''Item removed from cart''
                 else ToastError ''Failed to remove item from cart'']"
  by (auto simp: removeFromCart_def mutate_def split: option.splits fault.splits)

lemma clearCart_toasts:
  "toasts (clearCart f s) =
     toasts s @ [if user s = None \<or> f = NoFault then ToastSuccess ''Cart cleared''
                 else ToastError ''Failed to clear cart'']"
  by (auto simp: clearCart_def mutate_def split: option.splits fault.splits)

lemma updateQuantity_toasts:
  "toasts (updateQuantity eid n f s) =
     (if n \<le> 0 then toasts (removeFromCart eid f s)
      else if user s = None \<or> f = NoFault then toasts s
      else toasts s @ [ToastError ''Failed to update quantity''])"
  by (auto simp: updateQuantity_def mutate_def split: option.splits fault.splits)

lemma checkout_toasts:
  "toasts (snd (checkout fb fi fc s)) =
     (if user s = None then toasts s @ [ToastError ''Please log in to checkout'']
      else if items s = [] then toasts s @ [ToastError ''Your cart is empty'']
      else if fb = NoFault \<and> fi = NoFault
        then toasts s @ [if fc = NoFault then ToastSuccess ''Cart cleared''
                         else ToastError ''Failed to clear cart'']
      else toasts s)"
  by (auto simp: checkout_def insert_returning_def mutate_def Let_def clearCart_toasts
      split: option.splits fault.splits)

text \<open>C8, as stated, fails twice: checkout of a guest returns false and shows the toast
  ``Please log in to checkout'', and a failing \<^verbatim>\<open>addToCart\<close> throws without showing
  any toast.\<close>

theorem checkout_guard_shows_toast:
  "\<not> fst (checkout NoFault NoFault NoFault guest_world)
   \<and> toasts guest_world = []
   \<and> toasts (snd (checkout NoFault NoFault NoFault guest_world)) =
       [ToastError ''Please log in to checkout'']
   \<and> fst (addToCart ''surf'' None NoFault NoFault NoFault NoFault alice_world) =
       Raised (Error ''Experience not found'')
   \<and> toasts (snd (addToCart ''surf'' None NoFault NoFault NoFault NoFault alice_world)) =
       toasts alice_world"
  by (simp add: checkout_def addToCart_def remote_add_def single_def guest_world_def
      alice_world_def)

text \<open>C8, amended. Checkout shows an error toast at its two guards (no signed-in user;
  empty cart) and is silent on the paths where an insert fails or a call throws; when
  both inserts succeed the only toast is the one of \<^verbatim>\<open>clearCart\<close>. The operations
  \<^verbatim>\<open>removeFromCart\<close>, \<^verbatim>\<open>updateQuantity\<close> and \<^verbatim>\<open>clearCart\<close> show an error toast
  exactly when their remote call fails or throws; \<^verbatim>\<open>addToCart\<close> never shows a toast.\<close>

theorem toasts_of_cart_operations:
  "toasts (snd (checkout fb fi fc s)) =
     (if user s = None then toasts s @ [ToastError ''Please log in to checkout'']
      else if items s = [] then toasts s @ [ToastError ''Your cart is empty'']
      else if fb = NoFault \<and> fi = NoFault
        then toasts s @ [if fc = NoFault then ToastSuccess ''Cart cleared''
                         else ToastError ''Failed to clear cart'']
      else toasts s)
   \<and> toasts (removeFromCart eid f s) =
       toasts s @ [if user s = None \<or> f = NoFault then ToastSuccess ''Item removed from cart''
                   else ToastError ''Failed to remove item from cart'']
   \<and> toasts (updateQuantity eid n f s) =
       (if n \<le> 0 then toasts (removeFromCart eid f s)
        else if user s = None \<or> f = NoFault then toasts s
        else toasts s @ [ToastError ''Failed to update quantity''])
   \<and> toasts (clearCart f s) =
       toasts s @ [if user s = None \<or> f = NoFault then ToastSuccess ''Cart cleared''
                   else ToastError ''Failed to clear cart'']
   \<and> toasts (snd (addToCart eid d f1 f2 f3 f4 s)) = toasts s"
  by (simp only: checkout_toasts removeFromCart_toasts updateQuantity_toasts clearCart_toasts
      addToCart_toasts simp_thms)

theorem toasts_of_cart_operations_witness:
  "toasts (snd (checkout (Fails ''23505'') NoFault NoFault alice_world)) = []
   \<and> toasts (snd (checkout NoFault Throws NoFault alice_world)) = []
   \<and> toasts (removeFromCart ''kayak'' Throws alice_world) =
       [ToastError ''Failed to remove item from cart'']
   \<and> toasts (updateQuantity ''kayak'' 4 (Fails ''500'') alice_world) =
       [ToastError ''Failed to update quantity'']
   \<and> toasts (clearCart (Fails ''500'') alice_world) = [ToastError ''Failed to clear cart'']
   \<and> toasts (snd (addToCart ''kayak'' None NoFault NoFault Throws NoFault alice_world)) = []"
  using toasts_of_cart_operations
      [of "Fails ''23505''" NoFault NoFault alice_world "''kayak''" Throws 4 None
          NoFault NoFault Throws NoFault]
    toasts_of_cart_operations
      [of NoFault Throws NoFault alice_world "''kayak''" "Fails ''500''" 4 None
          NoFault NoFault Throws NoFault]
  by (simp add: alice_world_def guest_world_def)

subsection \<open>Provider application intake\<close>

lemma fold_max_start: "b \<le> fold max ys (b::nat)"
proof (induction ys arbitrary: b)
  case Nil
  then show ?case by simp
next
  case (Cons y ys)
  have "b \<le> max y b" by simp
  also have "max y b \<le> fold max ys (max y b)" by (rule Cons.IH)
  finally show ?case by simp
qed

lemma fold_max_ge: "x \<in> set ids \<Longrightarrow> x \<le> fold max ids (a::nat)"
proof (induction ids arbitrary: a)
  case Nil
  then show ?case by simp
next
  case (Cons y ys)
  show ?case
  proof (cases "x = y")
    case True
    have "y \<le> max y a" by simp
    also have "max y a \<le> fold max ys (max y a)" by (rule fold_max_start)
    finally show ?thesis using True by simp
  next
    case False
    with Cons.prems have "x \<in> set ys" by simp
    from Cons.IH [OF this] show ?thesis by simp
  qed
qed

lemma fresh_id_new: "fresh_id ids \<notin> set ids"
proof
  assume "fresh_id ids \<in> set ids"
  from fold_max_ge [OF this, of 0] show False by (simp add: fresh_id_def)
qed

text \<open>C7. \<^verbatim>\<open>submitProviderApplication\<close> inserts the provider row first, under an id no
  other provider row has, and, only when the form carries experience details and the
  provider insert succeeded, an experience row whose \<open>provider_id\<close> is that new id and
  whose other columns come from the details. It returns success with the provider row
  exactly when every insert it attempted succeeded, and then shows no toast; otherwise
  it returns one failure result carrying the error of the failing step and shows exactly
  one toast. The provider table depends on the provider insert alone: a failing
  experience insert leaves the new provider row in place.\<close>

theorem submitProviderApplication_outcomes:
  "(let pid = fresh_id (map provider_id (db_providers s));
        p = \<lparr>provider_id = pid, company_name = companyName fd, provider_email = email fd,
             contact_no = contactNo fd, provider_location = location fd,
             provider_status = ''pending'', join_date = now, experiences_count = 0,
             rating = 0\<rparr>;
        ok = (fp = NoFault \<and> (experienceDetails fd = None \<or> fe = NoFault));
        r = submitProviderApplication pf now fd fp fe s
    in pid \<notin> set (map provider_id (db_providers s))
     \<and> fst r =
         (if ok then Success (Some p)
          else Failure (case (if fp = NoFault then fe else fp) of
                          Fails c \<Rightarrow> BackendError c | _ \<Rightarrow> NetworkError))
     \<and> db_providers (snd r) = (if fp = NoFault then db_providers s @ [p] else db_providers s)
     \<and> db_provider_experiences (snd r) =
         (case experienceDetails fd of
            None \<Rightarrow> db_provider_experiences s
          | Some d \<Rightarrow>
              if fp = NoFault \<and> fe = NoFault
              then db_provider_experiences s @
                     [\<lparr>er_provider_id = pid, er_title = ed_name d,
                       er_description = ed_description d, er_image_url = ed_image d,
                       er_price = pf (ed_price d), er_location = ed_location d,
                       er_duration = ed_duration d, er_participants = ed_participants d,
                       er_date = ed_date d, er_category = ed_category d,
                       er_status = ''pending''\<rparr>]
              else db_provider_experiences s)
     \<and> provider_toasts (snd r) =
         (if ok then provider_toasts s
          else provider_toasts s @
                 [ToastError ''Failed to submit application. Please try again.'']))"
proof -
  have "fresh_id (map provider_id (db_providers s)) \<notin> set (map provider_id (db_providers s))"
    by (rule fresh_id_new)
  then show ?thesis
    unfolding Let_def
    by (auto simp: submitProviderApplication_def insert_returning_def mutate_def
        submit_failed_def provider_of_form_def experience_of_details_def
        split: option.splits fault.splits)
qed

theorem submitProviderApplication_outcomes_witness:
  "fst (submitProviderApplication (\<lambda>x. Finite 40) ''2024-03-19'' acme_form NoFault
          (Fails ''500'') empty_provider_world) = Failure (BackendError ''500'')
   \<and> map company_name
        (db_providers (snd (submitProviderApplication (\<lambda>x. Finite 40) ''2024-03-19'' acme_form
           NoFault (Fails ''500'') empty_provider_world))) = [''Acme'']
   \<and> db_provider_experiences
        (snd (submitProviderApplication (\<lambda>x. Finite 40) ''2024-03-19'' acme_form
           NoFault (Fails ''500'') empty_provider_world)) = []
   \<and> length (provider_toasts
        (snd (submitProviderApplication (\<lambda>x. Finite 40) ''2024-03-19'' acme_form
           NoFault (Fails ''500'') empty_provider_world))) = 1
   \<and> map er_provider_id
        (db_provider_experiences (snd (submitProviderApplication (\<lambda>x. Finite 40)
           ''2024-03-19'' acme_form NoFault NoFault empty_provider_world))) = [1]
   \<and> map er_title
        (db_provider_experiences (snd (submitProviderApplication (\<lambda>x. Finite 40)
           ''2024-03-19'' acme_form NoFault NoFault empty_provider_world))) = [''Dive'']
   \<and> map provider_id
        (db_providers (snd (submitProviderApplication (\<lambda>x. Finite 40) ''2024-03-19''
           acme_form NoFault NoFault empty_provider_world))) = [1]
   \<and> provider_toasts (snd (submitProviderApplication (\<lambda>x. Finite 40) ''2024-03-19''
           acme_form NoFault NoFault empty_provider_world)) = []"
  using submitProviderApplication_outcomes
      [of empty_provider_world acme_form "''2024-03-19''" NoFault "Fails ''500''"
          "\<lambda>x. Finite 40"]
    submitProviderApplication_outcomes
      [of empty_provider_world acme_form "''2024-03-19''" NoFault NoFault "\<lambda>x. Finite 40"]
  by (simp add: Let_def acme_form_def empty_provider_world_def fresh_id_def)

subsection \<open>Changing and removing lines\<close>










subsection \<open>Adding to the cart\<close>

lemma increment_existing_ids:
  "map experienceId (increment_existing eid c) = map experienceId c"
  by (induction c) simp_all

lemma increment_existing_dates:
  "map date (increment_existing eid c) = map date c"
  by (induction c) simp_all

lemma increment_existing_line:
  "filter (\<lambda>i. experienceId i = eid) (increment_existing eid c) =
     (case filter (\<lambda>i. experienceId i = eid) c of
        [] \<Rightarrow> []
      | x # xs \<Rightarrow> x\<lparr>quantity := js_increment (quantity x)\<rparr> # xs)"
  by (induction c) simp_all

lemma find_line_None:
  "(find (\<lambda>i. experienceId i = eid) c = None) = (filter (\<lambda>i. experienceId i = eid) c = [])"
  by (induction c) simp_all

lemma sort_key_Nil_iff: "(sort_key f xs = []) = (xs = [])"
  using length_sort [of f xs] by (cases xs) auto

lemma row_lines_filter:
  "filter (\<lambda>i. experienceId i = eid)
     (map row_to_item (sort_key f (filter (\<lambda>r. row_user r = uid) rows))) =
   map row_to_item (sort_key f (filter (\<lambda>r. row_user r = uid \<and> row_experience r = eid) rows))"
  by (simp add: filter_map comp_def row_to_item_def filter_sort conj_commute)

lemma stored_line_rows:
  "user s = Some uid \<Longrightarrow>
   filter (\<lambda>i. experienceId i = eid) (stored_cart s) =
     map row_to_item
       (sort_key (db_rank s)
          (filter (\<lambda>r. row_user r = uid \<and> row_experience r = eid) (db_cart_items s)))"
  by (simp add: stored_cart_def row_lines_filter)

lemma update_cart_row_filter:
  "filter (\<lambda>r. P (row_user r) (row_experience r)) (update_cart_row ex d rows) =
     update_cart_row ex d (filter (\<lambda>r. P (row_user r) (row_experience r)) rows)"
  by (induction rows) (simp_all add: update_cart_row_def)

lemma update_cart_row_experiences:
  "map row_experience (update_cart_row ex d rows) = map row_experience rows"
  by (induction rows) (simp_all add: update_cart_row_def)

lemma update_cart_row_length: "length (update_cart_row ex d rows) = length rows"
  by (simp add: update_cart_row_def)

lemma singleton_from_map:
  "map f xs = [y] \<Longrightarrow> \<exists>x. xs = [x] \<and> f x = y"
  by (cases xs) auto

lemma guest_add_new:
  assumes "user s = None" "localStorage_cart s \<noteq> Malformed"
    and "filter (\<lambda>i. experienceId i = eid) (stored_cart s) = []"
  shows "addToCart eid d f1 f2 f3 f4 s =
           (Returned (),
            s\<lparr>localStorage_cart :=
                Stored (stored_cart s @ [\<lparr>experienceId = eid, quantity = 1, date = d\<rparr>]),
              items := stored_cart s @ [\<lparr>experienceId = eid, quantity = 1, date = d\<rparr>]\<rparr>)"
  using assms
  by (cases "localStorage_cart s")
     (simp_all add: addToCart_def guest_add_def stored_cart_def Let_def
        find_line_None [symmetric])

lemma guest_add_existing:
  assumes "user s = None"
    and "filter (\<lambda>i. experienceId i = eid) (stored_cart s) \<noteq> []"
  shows "addToCart eid d f1 f2 f3 f4 s =
           (Returned (),
            s\<lparr>localStorage_cart := Stored (increment_existing eid (stored_cart s)),
              items := increment_existing eid (stored_cart s)\<rparr>)"
proof (cases "localStorage_cart s")
  case (Stored c)
  with assms have "find (\<lambda>i. experienceId i = eid) c \<noteq> None"
    by (simp add: stored_cart_def find_line_None)
  with assms Stored show ?thesis
    by (auto simp: addToCart_def guest_add_def stored_cart_def Let_def)
qed (use assms in \<open>simp_all add: stored_cart_def\<close>)

lemma remote_add_new:
  assumes "user s = Some uid" "filter (\<lambda>e. e = eid) (db_experiences s) = [eid]"
    and "filter (\<lambda>i. experienceId i = eid) (stored_cart s) = []"
  shows "addToCart eid (Some d) NoFault NoFault NoFault NoFault s =
           (Returned (),
            s\<lparr>db_cart_items :=
                db_cart_items s @
                  [\<lparr>row_id = fresh_id (map row_id (db_cart_items s)), row_user = uid,
                    row_experience = eid, row_quantity = 1, row_date = d\<rparr>],
              items :=
                map row_to_item
                  (sort_key (db_rank s)
                     (filter (\<lambda>r. row_user r = uid)
                        (db_cart_items s @
                           [\<lparr>row_id = fresh_id (map row_id (db_cart_items s)), row_user = uid,
                             row_experience = eid, row_quantity = 1, row_date = d\<rparr>])))\<rparr>)"
proof -
  from assms(1,3)
  have "filter (\<lambda>r. row_user r = uid \<and> row_experience r = eid) (db_cart_items s) = []"
    by (simp add: stored_line_rows sort_key_Nil_iff)
  with assms(1,2) show ?thesis
    by (simp add: addToCart_def remote_add_def single_def mutate_def fetchCartItems_def
        select_def insert_cart_row_def)
qed

lemma remote_add_new_line:
  assumes "user s = Some uid" "filter (\<lambda>e. e = eid) (db_experiences s) = [eid]"
    and none: "filter (\<lambda>i. experienceId i = eid) (stored_cart s) = []"
  shows "fst (addToCart eid (Some d) NoFault NoFault NoFault NoFault s) = Returned ()"
    and "filter (\<lambda>i. experienceId i = eid)
           (items (snd (addToCart eid (Some d) NoFault NoFault NoFault NoFault s))) =
         [\<lparr>experienceId = eid, quantity = 1, date = Some d\<rparr>]"
    and "length (items (snd (addToCart eid (Some d) NoFault NoFault NoFault NoFault s))) =
         length (stored_cart s) + 1"
    and "stored_cart (snd (addToCart eid (Some d) NoFault NoFault NoFault NoFault s)) =
         items (snd (addToCart eid (Some d) NoFault NoFault NoFault NoFault s))"
    and "user (snd (addToCart eid (Some d) NoFault NoFault NoFault NoFault s)) = user s"
    and "db_experiences (snd (addToCart eid (Some d) NoFault NoFault NoFault NoFault s)) =
         db_experiences s"
proof -
  note eq = remote_add_new [OF assms, of d]
  from assms(1) none
  have F: "filter (\<lambda>r. row_user r = uid \<and> row_experience r = eid) (db_cart_items s) = []"
    by (simp add: stored_line_rows sort_key_Nil_iff)
  show "fst (addToCart eid (Some d) NoFault NoFault NoFault NoFault s) = Returned ()"
    by (simp add: eq)
  let ?new = "\<lparr>row_id = fresh_id (map row_id (db_cart_items s)), row_user = uid,
                row_experience = eid, row_quantity = 1, row_date = d\<rparr>"
  have "filter (\<lambda>i. experienceId i = eid)
           (items (snd (addToCart eid (Some d) NoFault NoFault NoFault NoFault s))) =
        filter (\<lambda>i. experienceId i = eid)
          (map row_to_item
             (sort_key (db_rank s)
                (filter (\<lambda>r. row_user r = uid) (db_cart_items s @ [?new]))))"
    by (simp add: eq)
  also have "\<dots> =
        map row_to_item
          (sort_key (db_rank s)
             (filter (\<lambda>r. row_user r = uid \<and> row_experience r = eid)
                (db_cart_items s @ [?new])))"
    by (rule row_lines_filter)
  also have "\<dots> = [\<lparr>experienceId = eid, quantity = 1, date = Some d\<rparr>]"
    by (simp add: F row_to_item_def)
  finally show "filter (\<lambda>i. experienceId i = eid)
           (items (snd (addToCart eid (Some d) NoFault NoFault NoFault NoFault s))) =
         [\<lparr>experienceId = eid, quantity = 1, date = Some d\<rparr>]" .
  show "length (items (snd (addToCart eid (Some d) NoFault NoFault NoFault NoFault s))) =
         length (stored_cart s) + 1"
    using assms(1) by (simp add: eq stored_cart_def)
  show "stored_cart (snd (addToCart eid (Some d) NoFault NoFault NoFault NoFault s)) =
         items (snd (addToCart eid (Some d) NoFault NoFault NoFault NoFault s))"
    using assms(1) by (simp add: eq stored_cart_def)
  show "user (snd (addToCart eid (Some d) NoFault NoFault NoFault NoFault s)) = user s"
    by (simp add: eq)
  show "db_experiences (snd (addToCart eid (Some d) NoFault NoFault NoFault NoFault s)) =
         db_experiences s"
    by (simp add: eq)
qed

lemma remote_add_existing:
  assumes "user s = Some uid" "filter (\<lambda>e. e = eid) (db_experiences s) = [eid]"
    and "filter (\<lambda>r. row_user r = uid \<and> row_experience r = eid) (db_cart_items s) = [r]"
  shows "addToCart eid d NoFault NoFault NoFault NoFault s =
           (Returned (),
            s\<lparr>db_cart_items := update_cart_row r d (db_cart_items s),
              items :=
                map row_to_item
                  (sort_key (db_rank s)
                     (filter (\<lambda>r. row_user r = uid)
                        (update_cart_row r d (db_cart_items s))))\<rparr>)"
  using assms
  by (simp add: addToCart_def remote_add_def single_def mutate_def fetchCartItems_def
      select_def)

lemma remote_add_existing_line:
  assumes "user s = Some uid" "filter (\<lambda>e. e = eid) (db_experiences s) = [eid]"
    and F: "filter (\<lambda>r. row_user r = uid \<and> row_experience r = eid) (db_cart_items s) = [r]"
  shows "fst (addToCart eid d NoFault NoFault NoFault NoFault s) = Returned ()"
    and "filter (\<lambda>i. experienceId i = eid)
           (items (snd (addToCart eid d NoFault NoFault NoFault NoFault s))) =
         [\<lparr>experienceId = eid, quantity = js_increment (row_quantity r),
           date = Some (date_or d (row_date r))\<rparr>]"
    and "length (items (snd (addToCart eid d NoFault NoFault NoFault NoFault s))) =
         length (stored_cart s)"
    and "set (map experienceId (items (snd (addToCart eid d NoFault NoFault NoFault NoFault s))))
         = set (map experienceId (stored_cart s))"
    and "stored_cart (snd (addToCart eid d NoFault NoFault NoFault NoFault s)) =
         items (snd (addToCart eid d NoFault NoFault NoFault NoFault s))"
proof -
  note eq = remote_add_existing [OF assms, of d]
  show "fst (addToCart eid d NoFault NoFault NoFault NoFault s) = Returned ()"
    by (simp add: eq)
  have "r \<in> set (filter (\<lambda>r. row_user r = uid \<and> row_experience r = eid) (db_cart_items s))"
    by (simp add: F)
  then have r: "row_user r = uid" "row_experience r = eid" by simp_all
  have "filter (\<lambda>r. row_user r = uid \<and> row_experience r = eid)
          (update_cart_row r d (db_cart_items s)) = update_cart_row r d [r]"
    using update_cart_row_filter [of "\<lambda>u e. u = uid \<and> e = eid" r d "db_cart_items s"]
    by (simp add: F)
  then show "filter (\<lambda>i. experienceId i = eid)
           (items (snd (addToCart eid d NoFault NoFault NoFault NoFault s))) =
         [\<lparr>experienceId = eid, quantity = js_increment (row_quantity r),
           date = Some (date_or d (row_date r))\<rparr>]"
    by (simp add: eq row_lines_filter) (simp add: update_cart_row_def row_to_item_def r)
  have U: "filter (\<lambda>r. row_user r = uid) (update_cart_row r d (db_cart_items s))
          = update_cart_row r d (filter (\<lambda>r. row_user r = uid) (db_cart_items s))"
    using update_cart_row_filter [of "\<lambda>u e. u = uid" r d "db_cart_items s"] by simp
  show "length (items (snd (addToCart eid d NoFault NoFault NoFault NoFault s))) =
         length (stored_cart s)"
    using assms(1) by (simp add: eq stored_cart_def U update_cart_row_length)
  have "set (map row_experience
               (update_cart_row r d (filter (\<lambda>r. row_user r = uid) (db_cart_items s)))) =
        set (map row_experience (filter (\<lambda>r. row_user r = uid) (db_cart_items s)))"
    by (simp only: update_cart_row_experiences)
  then show "set (map experienceId
                   (items (snd (addToCart eid d NoFault NoFault NoFault NoFault s))))
         = set (map experienceId (stored_cart s))"
    using assms(1)
    by (simp add: eq stored_cart_def U comp_def row_to_item_def image_image)
  show "stored_cart (snd (addToCart eid d NoFault NoFault NoFault NoFault s)) =
         items (snd (addToCart eid d NoFault NoFault NoFault NoFault s))"
    using assms(1) by (simp add: eq stored_cart_def)
qed

lemma stored_rows_singleton:
  assumes "user s = Some uid"
    and "map f (filter (\<lambda>i. experienceId i = eid) (stored_cart s)) = [y]"
  shows "\<exists>r. filter (\<lambda>r. row_user r = uid \<and> row_experience r = eid) (db_cart_items s) = [r]
             \<and> f (row_to_item r) = y"
proof -
  let ?F = "filter (\<lambda>r. row_user r = uid \<and> row_experience r = eid) (db_cart_items s)"
  from assms have "map (f \<circ> row_to_item) (sort_key (db_rank s) ?F) = [y]"
    by (simp add: stored_line_rows)
  from singleton_from_map [OF this] obtain r
    where r: "sort_key (db_rank s) ?F = [r]" and y: "f (row_to_item r) = y" by auto
  from r have "length ?F = 1" by (metis length_sort length_Cons list.size(3) One_nat_def)
  then obtain r' where r': "?F = [r']" by (cases ?F) auto
  with r have "r' = r" by simp
  with r' y show ?thesis by simp
qed

lemma add_existing_line:
  assumes ok: "user s = None \<and> localStorage_cart s \<noteq> Malformed
               \<or> user s \<noteq> None \<and> filter (\<lambda>e. e = eid) (db_experiences s) = [eid]"
    and one: "map quantity (filter (\<lambda>i. experienceId i = eid) (stored_cart s)) = q # qs"
    and uniq: "user s = None \<or> qs = []"
  shows "fst (addToCart eid d NoFault NoFault NoFault NoFault s) = Returned ()
       \<and> map quantity (filter (\<lambda>i. experienceId i = eid)
            (items (snd (addToCart eid d NoFault NoFault NoFault NoFault s))))
           = js_increment q # qs
       \<and> length (items (snd (addToCart eid d NoFault NoFault NoFault NoFault s))) =
            length (stored_cart s)
       \<and> set (map experienceId (items (snd (addToCart eid d NoFault NoFault NoFault NoFault s))))
           = set (map experienceId (stored_cart s))
       \<and> stored_cart (snd (addToCart eid d NoFault NoFault NoFault NoFault s)) =
            items (snd (addToCart eid d NoFault NoFault NoFault NoFault s))"
proof (cases "user s")
  case None
  from one have ne: "filter (\<lambda>i. experienceId i = eid) (stored_cart s) \<noteq> []" by auto
  from one obtain x xs
    where x: "filter (\<lambda>i. experienceId i = eid) (stored_cart s) = x # xs"
      "quantity x = q" "map quantity xs = qs"
    by (cases "filter (\<lambda>i. experienceId i = eid) (stored_cart s)") auto
  note eq = guest_add_existing [OF None ne, of d NoFault NoFault NoFault NoFault]
  have len: "length (increment_existing eid (stored_cart s)) = length (stored_cart s)"
    using increment_existing_ids [of eid "stored_cart s"] by (metis length_map)
  have ids: "experienceId ` set (increment_existing eid (stored_cart s)) =
             experienceId ` set (stored_cart s)"
    using increment_existing_ids [of eid "stored_cart s"] by (metis set_map)
  have sc: "stored_cart (s\<lparr>localStorage_cart := Stored c, items := c\<rparr>) = c" for c
    using None by (simp add: stored_cart_def)
  show ?thesis
    using x by (simp add: eq increment_existing_line len ids sc)
next
  case (Some uid)
  with ok have e: "filter (\<lambda>e. e = eid) (db_experiences s) = [eid]" by simp
  from Some uniq one
  have "map quantity (filter (\<lambda>i. experienceId i = eid) (stored_cart s)) = [q]" by simp
  from stored_rows_singleton [OF Some this] obtain r
    where r: "filter (\<lambda>r. row_user r = uid \<and> row_experience r = eid) (db_cart_items s) = [r]"
      and rq: "quantity (row_to_item r) = q" by blast
  from rq have "row_quantity r = q" by (simp add: row_to_item_def)
  with remote_add_existing_line [OF Some e r, of d] Some uniq show ?thesis by simp
qed

lemma add_new_line:
  assumes ok: "user s = None \<and> localStorage_cart s \<noteq> Malformed
               \<or> user s \<noteq> None \<and> filter (\<lambda>e. e = eid) (db_experiences s) = [eid]"
    and none: "filter (\<lambda>i. experienceId i = eid) (stored_cart s) = []"
    and dated: "user s = None \<or> d \<noteq> None"
  shows "fst (addToCart eid d NoFault NoFault NoFault NoFault s) = Returned ()
       \<and> filter (\<lambda>i. experienceId i = eid)
            (items (snd (addToCart eid d NoFault NoFault NoFault NoFault s))) =
            [\<lparr>experienceId = eid, quantity = 1, date = d\<rparr>]
       \<and> length (items (snd (addToCart eid d NoFault NoFault NoFault NoFault s))) =
            length (stored_cart s) + 1
       \<and> stored_cart (snd (addToCart eid d NoFault NoFault NoFault NoFault s)) =
            items (snd (addToCart eid d NoFault NoFault NoFault NoFault s))
       \<and> user (snd (addToCart eid d NoFault NoFault NoFault NoFault s)) = user s
       \<and> db_experiences (snd (addToCart eid d NoFault NoFault NoFault NoFault s)) =
            db_experiences s
       \<and> (user s = None \<longrightarrow>
            localStorage_cart (snd (addToCart eid d NoFault NoFault NoFault NoFault s))
              \<noteq> Malformed)"
proof (cases "user s")
  case None
  with ok have m: "localStorage_cart s \<noteq> Malformed" by simp
  note eq = guest_add_new [OF None m none, of d NoFault NoFault NoFault NoFault]
  show ?thesis using None none by (simp add: eq stored_cart_def)
next
  case (Some uid)
  with ok have e: "filter (\<lambda>e. e = eid) (db_experiences s) = [eid]" by simp
  from Some dated obtain stamp where d: "d = Some stamp" by auto
  from remote_add_new_line [OF Some e none, of stamp] Some show ?thesis
    by (simp add: d)
qed

text \<open>C3, as stated, fails in several ways. A signed-in user who adds an experience without
  a date gets ``Failed to add to cart'' both times and no line, because the cart table
  refuses a row without a date. A guest who removed a line sees an empty cart, and two
  calls then give quantity 3, because the removed line is still in local storage. For a
  signed-in user an id that no experience row has is refused, and with two rows for the
  same experience a third line is added. A quantity of \<open>2 ^ 53\<close> is not incremented.\<close>

theorem addToCart_twice_fails:
  "fst (addToCart ''kayak'' None NoFault NoFault NoFault NoFault carol_world) =
     Raised (Error ''Failed to add to cart'')
   \<and> fst (addToCart ''kayak'' None NoFault NoFault NoFault NoFault
        (snd (addToCart ''kayak'' None NoFault NoFault NoFault NoFault carol_world))) =
     Raised (Error ''Failed to add to cart'')
   \<and> items (snd (addToCart ''kayak'' None NoFault NoFault NoFault NoFault
        (snd (addToCart ''kayak'' None NoFault NoFault NoFault NoFault carol_world)))) = []
   \<and> items returning_guest = []
   \<and> map quantity
        (items (snd (addToCart ''kayak'' None NoFault NoFault NoFault NoFault
           (snd (addToCart ''kayak'' None NoFault NoFault NoFault NoFault returning_guest)))))
       = [3]
   \<and> fst (addToCart ''surf'' (Some ''2024-05-05'') NoFault NoFault NoFault NoFault alice_world)
       = Raised (Error ''Experience not found'')
   \<and> map quantity (filter (\<lambda>i. experienceId i = ''kayak'')
        (items (snd (addToCart ''kayak'' (Some ''2024-05-05'') NoFault NoFault NoFault NoFault
           duplicate_world)))) = [2, 1, 1]
   \<and> map quantity
        (items (snd (addToCart ''kayak'' None NoFault NoFault NoFault NoFault big_guest)))
       = [2 ^ 53]"
proof -
  have small: "js_increment 1 = 2" "js_increment 2 = 3"
    using js_increment_small [of 1] js_increment_small [of 2] by simp_all
  have big: "js_increment (2 ^ 53) = 2 ^ 53"
  proof -
    have "num (2 ^ 53) = Finite (2 ^ 53)" using num_int [of "2 ^ 53"] by simp
    moreover have "js_add (Finite (2 ^ 53)) (Finite 1) = Finite (2 ^ 53)"
      using round_double_edge(3) by simp
    moreover have "\<lfloor>2 ^ 53 :: rat\<rfloor> = 2 ^ 53"
      using floor_of_int [of "2 ^ 53", where ?'a = rat] by simp
    ultimately show ?thesis by (simp only: js_increment_def number.case)
  qed
  then have big': "js_increment 9007199254740992 = 9007199254740992" by simp
  have carol: "addToCart ''kayak'' None NoFault NoFault NoFault NoFault carol_world =
                 (Raised (Error ''Failed to add to cart''), carol_world)"
    by (simp add: addToCart_def remote_add_def single_def insert_cart_row_def carol_world_def
        guest_world_def)
  have guest: "returning_guest =
      guest_world\<lparr>localStorage_cart :=
                    Stored [\<lparr>experienceId = ''kayak'', quantity = 1, date = None\<rparr>],
                  toasts := [ToastSuccess ''Item removed from cart'']\<rparr>"
    by (simp add: returning_guest_def addToCart_def guest_add_def removeFromCart_def
        guest_world_def Let_def)
  have "map quantity (filter (\<lambda>i. experienceId i = ''kayak'')
        (items (snd (addToCart ''kayak'' (Some ''2024-05-05'') NoFault NoFault NoFault NoFault
           duplicate_world)))) = [2, 1, 1]"
    by (simp add: addToCart_def remote_add_def single_def insert_cart_row_def mutate_def
        fetchCartItems_def select_def row_to_item_def fresh_id_def duplicate_world_def
        alice_world_def guest_world_def)
  moreover have "map quantity
        (items (snd (addToCart ''kayak'' None NoFault NoFault NoFault NoFault big_guest)))
       = [2 ^ 53]"
    by (simp add: addToCart_def guest_add_def big_guest_def guest_world_def Let_def big')
  moreover have "fst (addToCart ''surf'' (Some ''2024-05-05'') NoFault NoFault NoFault NoFault
      alice_world) = Raised (Error ''Experience not found'')"
    by (simp add: addToCart_def remote_add_def single_def alice_world_def guest_world_def)
  moreover have "map quantity
        (items (snd (addToCart ''kayak'' None NoFault NoFault NoFault NoFault
           (snd (addToCart ''kayak'' None NoFault NoFault NoFault NoFault returning_guest)))))
       = [3]"
    by (simp add: guest addToCart_def guest_add_def guest_world_def Let_def small)
  moreover have "items returning_guest = []"
    by (simp add: guest guest_world_def)
  moreover have "items carol_world = []"
    by (simp add: carol_world_def guest_world_def)
  ultimately show ?thesis
    by (simp add: carol)
qed

text \<open>C3, amended. Let every remote call be carried out, let the experience exist exactly
  once (for a signed-in user) and let the stored guest cart be readable (for a guest);
  the cart is the one \<^verbatim>\<open>addToCart\<close> reads, \<open>stored_cart\<close>: local storage for a guest,
  the user's remote rows for a signed-in user. Starting from a cart with no line for an
  experience id, two calls of \<^verbatim>\<open>addToCart\<close> with that id (the first one with a date,
  for a signed-in user) both return and leave exactly one line for it, of quantity 2,
  and one line more than before. More generally, when the cart has a line for the id
  (exactly one, for a signed-in user) of a quantity \<open>q\<close> below \<open>2 ^ 53\<close> in magnitude,
  one call returns, gives that line (the first one, for a guest) the quantity \<open>q + 1\<close>,
  and leaves the number of lines and the set of their ids as they were. The item list
  shown afterwards is the stored cart.\<close>

theorem addToCart_same_id_increments:
  assumes ok: "user s = None \<and> localStorage_cart s \<noteq> Malformed
               \<or> user s \<noteq> None \<and> filter (\<lambda>e. e = eid) (db_experiences s) = [eid]"
  shows "(filter (\<lambda>i. experienceId i = eid) (stored_cart s) = []
          \<and> (user s = None \<or> d1 \<noteq> None) \<longrightarrow>
            (let r1 = addToCart eid d1 NoFault NoFault NoFault NoFault s;
                 r2 = addToCart eid d2 NoFault NoFault NoFault NoFault (snd r1)
             in fst r1 = Returned () \<and> fst r2 = Returned ()
              \<and> map quantity (filter (\<lambda>i. experienceId i = eid) (items (snd r2))) = [2]
              \<and> length (items (snd r2)) = length (stored_cart s) + 1
              \<and> stored_cart (snd r2) = items (snd r2)))
       \<and> (map quantity (filter (\<lambda>i. experienceId i = eid) (stored_cart s)) = q # qs
          \<and> (user s = None \<or> qs = []) \<and> \<bar>q\<bar> < 2 ^ 53 \<longrightarrow>
            (let r = addToCart eid d NoFault NoFault NoFault NoFault s
             in fst r = Returned ()
              \<and> map quantity (filter (\<lambda>i. experienceId i = eid) (items (snd r))) = (q + 1) # qs
              \<and> length (items (snd r)) = length (stored_cart s)
              \<and> set (map experienceId (items (snd r))) = set (map experienceId (stored_cart s))
              \<and> stored_cart (snd r) = items (snd r)))"
proof (intro conjI impI)
  assume h: "filter (\<lambda>i. experienceId i = eid) (stored_cart s) = []
             \<and> (user s = None \<or> d1 \<noteq> None)"
  then have none: "filter (\<lambda>i. experienceId i = eid) (stored_cart s) = []"
    and dated: "user s = None \<or> d1 \<noteq> None" by simp_all
  define s1 where "s1 = snd (addToCart eid d1 NoFault NoFault NoFault NoFault s)"
  from add_new_line [OF ok none dated]
  have r1: "fst (addToCart eid d1 NoFault NoFault NoFault NoFault s) = Returned ()"
    and line: "filter (\<lambda>i. experienceId i = eid) (items s1) =
                 [\<lparr>experienceId = eid, quantity = 1, date = d1\<rparr>]"
    and len: "length (items s1) = length (stored_cart s) + 1"
    and st: "stored_cart s1 = items s1"
    and u: "user s1 = user s" and e: "db_experiences s1 = db_experiences s"
    and m: "user s = None \<longrightarrow> localStorage_cart s1 \<noteq> Malformed"
    by (simp_all add: s1_def)
  from ok u e m have ok1: "user s1 = None \<and> localStorage_cart s1 \<noteq> Malformed
               \<or> user s1 \<noteq> None \<and> filter (\<lambda>e. e = eid) (db_experiences s1) = [eid]"
    by auto
  from st line
  have one: "map quantity (filter (\<lambda>i. experienceId i = eid) (stored_cart s1)) = 1 # []"
    by simp
  have two: "js_increment 1 = 2" using js_increment_small [of 1] by simp
  from add_existing_line [OF ok1 one, of d2] r1 len st two
  show "let r1 = addToCart eid d1 NoFault NoFault NoFault NoFault s;
            r2 = addToCart eid d2 NoFault NoFault NoFault NoFault (snd r1)
        in fst r1 = Returned () \<and> fst r2 = Returned ()
         \<and> map quantity (filter (\<lambda>i. experienceId i = eid) (items (snd r2))) = [2]
         \<and> length (items (snd r2)) = length (stored_cart s) + 1
         \<and> stored_cart (snd r2) = items (snd r2)"
    by (simp add: Let_def s1_def [symmetric])
next
  assume h: "map quantity (filter (\<lambda>i. experienceId i = eid) (stored_cart s)) = q # qs
             \<and> (user s = None \<or> qs = []) \<and> \<bar>q\<bar> < 2 ^ 53"
  then have one: "map quantity (filter (\<lambda>i. experienceId i = eid) (stored_cart s)) = q # qs"
    and uniq: "user s = None \<or> qs = []" and range: "\<bar>q\<bar> < 2 ^ 53" by simp_all
  from add_existing_line [OF ok one uniq, of d] js_increment_small [OF range]
  show "let r = addToCart eid d NoFault NoFault NoFault NoFault s
        in fst r = Returned ()
         \<and> map quantity (filter (\<lambda>i. experienceId i = eid) (items (snd r))) = (q + 1) # qs
         \<and> length (items (snd r)) = length (stored_cart s)
         \<and> set (map experienceId (items (snd r))) = set (map experienceId (stored_cart s))
         \<and> stored_cart (snd r) = items (snd r)"
    by (simp add: Let_def)
qed

theorem addToCart_same_id_increments_witness:
  "map quantity (filter (\<lambda>i. experienceId i = ''kayak'')
     (items (snd (addToCart ''kayak'' None NoFault NoFault NoFault NoFault
        (snd (addToCart ''kayak'' None NoFault NoFault NoFault NoFault guest_world)))))) = [2]
   \<and> map quantity (filter (\<lambda>i. experienceId i = ''kayak'')
     (items (snd (addToCart ''kayak'' None NoFault NoFault NoFault NoFault
        (snd (addToCart ''kayak'' (Some ''2024-05-05'') NoFault NoFault NoFault NoFault
           carol_world)))))) = [2]
   \<and> map quantity (filter (\<lambda>i. experienceId i = ''kayak'')
        (items (snd (addToCart ''kayak'' None NoFault NoFault NoFault NoFault alice_world))))
       = [3]
   \<and> length (items (snd (addToCart ''kayak'' None NoFault NoFault NoFault NoFault alice_world)))
       = 2"
proof -
  have g: "user guest_world = None \<and> localStorage_cart guest_world \<noteq> Malformed
           \<or> user guest_world \<noteq> None
             \<and> filter (\<lambda>e. e = ''kayak'') (db_experiences guest_world) = [''kayak'']"
    by (simp add: guest_world_def)
  have g0: "filter (\<lambda>i. experienceId i = ''kayak'') (stored_cart guest_world) = []"
    "user guest_world = None"
    by (simp_all add: guest_world_def stored_cart_def)
  have c: "user carol_world = None \<and> localStorage_cart carol_world \<noteq> Malformed
           \<or> user carol_world \<noteq> None
             \<and> filter (\<lambda>e. e = ''kayak'') (db_experiences carol_world) = [''kayak'']"
    by (simp add: guest_world_def carol_world_def)
  have c0: "filter (\<lambda>i. experienceId i = ''kayak'') (stored_cart carol_world) = []"
    by (simp add: guest_world_def carol_world_def stored_cart_def)
  have a: "user alice_world = None \<and> localStorage_cart alice_world \<noteq> Malformed
           \<or> user alice_world \<noteq> None
             \<and> filter (\<lambda>e. e = ''kayak'') (db_experiences alice_world) = [''kayak'']"
    by (simp add: guest_world_def alice_world_def)
  have a1: "map quantity (filter (\<lambda>i. experienceId i = ''kayak'') (stored_cart alice_world))
              = 2 # []"
    "length (stored_cart alice_world) = 2"
    by (simp_all add: guest_world_def alice_world_def stored_cart_def row_to_item_def)
  from addToCart_same_id_increments [OF g, of None None 0 "[]" None]
    addToCart_same_id_increments [OF c, of "Some ''2024-05-05''" None 0 "[]" None]
    addToCart_same_id_increments [OF a, of None None 2 "[]" None] g0 c0 a1
  show ?thesis by (simp add: Let_def)
qed

text \<open>C10. For a guest whose cart already has a line for the experience id,
  \<^verbatim>\<open>addToCart\<close> leaves the date of every line as it was, whatever date is passed. For
  a signed-in user with exactly one line for the id (the experience existing and every
  remote call carried out), the line's date becomes the date passed, and stays the old
  date when none is passed. (\<^verbatim>\<open>toISOString\<close> never yields the empty string.)\<close>

theorem addToCart_existing_line_date:
  "(user s = None \<and> filter (\<lambda>i. experienceId i = eid) (stored_cart s) \<noteq> [] \<longrightarrow>
      (let r = addToCart eid d f1 f2 f3 f4 s
       in fst r = Returned ()
        \<and> map date (items (snd r)) = map date (stored_cart s)
        \<and> map experienceId (items (snd r)) = map experienceId (stored_cart s)
        \<and> stored_cart (snd r) = items (snd r)))
   \<and> (user t = Some uid \<and> filter (\<lambda>e. e = eid) (db_experiences t) = [eid]
       \<and> map date (filter (\<lambda>i. experienceId i = eid) (stored_cart t)) = [old]
       \<and> new \<noteq> Some [] \<longrightarrow>
      (let r = addToCart eid new NoFault NoFault NoFault NoFault t
       in fst r = Returned ()
        \<and> map date (filter (\<lambda>i. experienceId i = eid) (items (snd r))) =
            [case new of None \<Rightarrow> old | Some stamp \<Rightarrow> Some stamp]
        \<and> stored_cart (snd r) = items (snd r)))"
proof (intro conjI impI)
  assume "user s = None \<and> filter (\<lambda>i. experienceId i = eid) (stored_cart s) \<noteq> []"
  then have u: "user s = None" and ne: "filter (\<lambda>i. experienceId i = eid) (stored_cart s) \<noteq> []"
    by simp_all
  note eq = guest_add_existing [OF u ne, of d f1 f2 f3 f4]
  show "let r = addToCart eid d f1 f2 f3 f4 s
       in fst r = Returned ()
        \<and> map date (items (snd r)) = map date (stored_cart s)
        \<and> map experienceId (items (snd r)) = map experienceId (stored_cart s)
        \<and> stored_cart (snd r) = items (snd r)"
    using u by (simp add: eq Let_def increment_existing_dates increment_existing_ids stored_cart_def)
next
  assume h: "user t = Some uid \<and> filter (\<lambda>e. e = eid) (db_experiences t) = [eid]
       \<and> map date (filter (\<lambda>i. experienceId i = eid) (stored_cart t)) = [old]
       \<and> new \<noteq> Some []"
  then have u: "user t = Some uid" and e: "filter (\<lambda>e. e = eid) (db_experiences t) = [eid]"
    and o: "map date (filter (\<lambda>i. experienceId i = eid) (stored_cart t)) = [old]"
    and n: "new \<noteq> Some []" by simp_all
  from stored_rows_singleton [OF u o] obtain r
    where r: "filter (\<lambda>r. row_user r = uid \<and> row_experience r = eid) (db_cart_items t) = [r]"
      and rd: "date (row_to_item r) = old" by blast
  from rd have rd': "Some (row_date r) = old" by (simp add: row_to_item_def)
  from n rd' have "Some (date_or new (row_date r)) =
      (case new of None \<Rightarrow> old | Some stamp \<Rightarrow> Some stamp)"
    by (auto simp: date_or_def split: option.splits)
  with remote_add_existing_line(1,2,5) [OF u e r, of new]
  show "let r = addToCart eid new NoFault NoFault NoFault NoFault t
       in fst r = Returned ()
        \<and> map date (filter (\<lambda>i. experienceId i = eid) (items (snd r))) =
            [case new of None \<Rightarrow> old | Some stamp \<Rightarrow> Some stamp]
        \<and> stored_cart (snd r) = items (snd r)"
    by (simp add: Let_def)
qed


theorem addToCart_existing_line_date_witness:
  "map date (items (snd (addToCart ''kayak'' (Some ''2024-05-05'') NoFault NoFault NoFault NoFault
      (guest_world\<lparr>localStorage_cart :=
         Stored [\<lparr>experienceId = ''kayak'', quantity = 1, date = Some ''2024-03-19''\<rparr>]\<rparr>))))
     = [Some ''2024-03-19'']
   \<and> map date (filter (\<lambda>i. experienceId i = ''kayak'')
        (items (snd (addToCart ''kayak'' (Some ''2024-05-05'') NoFault NoFault NoFault NoFault
           alice_world)))) = [Some ''2024-05-05'']
   \<and> map date (filter (\<lambda>i. experienceId i = ''kayak'')
        (items (snd (addToCart ''kayak'' None NoFault NoFault NoFault NoFault alice_world))))
       = [Some ''2024-03-19'']"
proof -
  let ?g = "guest_world\<lparr>localStorage_cart :=
              Stored [\<lparr>experienceId = ''kayak'', quantity = 1, date = Some ''2024-03-19''\<rparr>]\<rparr>"
  have g: "user ?g = None \<and> filter (\<lambda>i. experienceId i = ''kayak'') (stored_cart ?g) \<noteq> []"
    by (simp add: guest_world_def stored_cart_def)
  have gd: "map date (stored_cart ?g) = [Some ''2024-03-19'']"
    by (simp add: guest_world_def stored_cart_def)
  have a: "user alice_world = Some ''alice''
           \<and> filter (\<lambda>e. e = ''kayak'') (db_experiences alice_world) = [''kayak'']
           \<and> map date (filter (\<lambda>i. experienceId i = ''kayak'') (stored_cart alice_world))
               = [Some ''2024-03-19'']"
    by (simp add: guest_world_def alice_world_def stored_cart_def row_to_item_def)
  from addToCart_existing_line_date
         [of ?g "''kayak''" "Some ''2024-05-05''" NoFault NoFault NoFault NoFault
             alice_world "''alice''" "Some ''2024-03-19''" "Some ''2024-05-05''"]
       addToCart_existing_line_date
         [of ?g "''kayak''" "Some ''2024-05-05''" NoFault NoFault NoFault NoFault
             alice_world "''alice''" "Some ''2024-03-19''" None]
       g gd a
  show ?thesis by (simp add: Let_def)
qed

subsection \<open>Guest carts and local storage\<close>

text \<open>Only \<^verbatim>\<open>addToCart\<close> writes the guest cart to local storage. The other operations
  change the item list of a guest and leave local storage as it was, so a line a guest
  removed is still stored and comes back, incremented, with the next \<^verbatim>\<open>addToCart\<close>.\<close>

lemma guest_local_storage_untouched:
  "localStorage_cart (removeFromCart eid f s) = localStorage_cart s"
  "localStorage_cart (updateQuantity eid n f s) = localStorage_cart s"
  "localStorage_cart (clearCart f s) = localStorage_cart s"
  by (auto simp: removeFromCart_def updateQuantity_def clearCart_def mutate_def
      split: option.splits fault.splits)

end
